theory Spec2Isabelle
  imports Complex_Main
begin

section \<open>Python values and exceptions\<close>

text \<open>
  The handler works on dynamically typed packets (\<^verbatim>\<open>Dict[str, Any]\<close>). A value is one of
  Python's \<^verbatim>\<open>None\<close>, \<^verbatim>\<open>bool\<close>, \<^verbatim>\<open>int\<close> (unbounded), \<^verbatim>\<open>float\<close>, \<^verbatim>\<open>str\<close>, \<^verbatim>\<open>list\<close>, \<^verbatim>\<open>dict\<close>,
  or an opaque object (the protobuf message under \<^verbatim>\<open>raw\<close>), of which only the text that
  \<^verbatim>\<open>str()\<close> gives is kept. A float is the number it denotes, or one of the three special
  values; the sign of zero is not kept. A dict is an association list in which the first
  entry of a key is the one a lookup finds.
\<close>

datatype pyfloat = Finite rat | PosInf | NegInf | NaN

datatype pyval =
    PNone
  | PBool bool
  | PInt int
  | PFloat pyfloat
  | PStr string
  | PList "pyval list"
  | PDict "(pyval \<times> pyval) list"
  | PObj string

text \<open>
  Exceptions are values. \<open>OtherError\<close> is any further subclass of \<^verbatim>\<open>Exception\<close> that a
  collaborator raises; \<open>BaseOnly\<close> is an exception that derives from \<^verbatim>\<open>BaseException\<close> but
  not from \<^verbatim>\<open>Exception\<close> (\<^verbatim>\<open>KeyboardInterrupt\<close>, \<^verbatim>\<open>SystemExit\<close>, \<^verbatim>\<open>asyncio.CancelledError\<close>).
\<close>

datatype pyexc =
    KeyError string
  | TypeError
  | ValueError
  | AttributeError
  | OverflowError
  | JSONDecodeError
  | OtherError string
  | BaseOnly string

text \<open>The class tests of the \<^verbatim>\<open>except\<close> clauses; \<^verbatim>\<open>JSONDecodeError\<close> subclasses \<^verbatim>\<open>ValueError\<close>.\<close>

fun is_Exception :: "pyexc \<Rightarrow> bool" where
  "is_Exception (BaseOnly _) = False"
| "is_Exception _ = True"

fun is_ValueError :: "pyexc \<Rightarrow> bool" where
  "is_ValueError ValueError = True"
| "is_ValueError JSONDecodeError = True"
| "is_ValueError _ = False"

fun is_JSONDecodeError :: "pyexc \<Rightarrow> bool" where
  "is_JSONDecodeError JSONDecodeError = True"
| "is_JSONDecodeError _ = False"

type_synonym 'a result = "pyexc + 'a"

text \<open>Sequencing of two steps of which the first may raise.\<close>

definition andThen :: "'a result \<Rightarrow> ('a \<Rightarrow> 'b result) \<Rightarrow> 'b result" where
  "andThen m f = (case m of Inl e \<Rightarrow> Inl e | Inr x \<Rightarrow> f x)"

section \<open>Collaborators and the standard library\<close>

datatype schema = NodeInfoT | TextMessageT | DeviceTelemetryT

text \<open>
  What the module imports or is handed, and does not define: the clock, the parsing and
  printing done by the builtins \<^verbatim>\<open>int\<close>, \<^verbatim>\<open>float\<close>, \<^verbatim>\<open>str\<close> and \<^verbatim>\<open>dict\<close>, the \<^verbatim>\<open>json\<close> module,
  \<^verbatim>\<open>validate_typed_dict\<close> of \<^verbatim>\<open>type_validation\<close>, and the Redis handler. A collaborator
  that returns nothing answers \<open>None\<close> when it returns and \<open>Some e\<close> when it raises \<open>e\<close>.
\<close>

record env =
  now_iso :: string
  int_of_str :: "string \<Rightarrow> int option"
  float_of_str :: "string \<Rightarrow> pyfloat option"
  round_big_int :: "int \<Rightarrow> pyfloat option"
  repr_of :: "pyval \<Rightarrow> string"
  dict_of_iterable :: "pyval \<Rightarrow> (pyval \<times> pyval) list result"
  json_dumps :: "pyval \<Rightarrow> string result"
  json_loads :: "string \<Rightarrow> pyval result"
  validate_typed_dict :: "pyval \<Rightarrow> schema \<Rightarrow> pyexc option"
  store_node :: "string \<Rightarrow> pyexc option"
  store_message :: "string \<Rightarrow> pyexc option"
  load_messages :: "int \<Rightarrow> string list result"
  load_nodes :: "int \<Rightarrow> string list result"

section \<open>Builtins\<close>

text \<open>\<^verbatim>\<open>v[k]\<close> with a string key: only a dict can be indexed by a string.\<close>

definition getitem :: "pyval \<Rightarrow> string \<Rightarrow> pyval result" where
  "getitem v k =
     (case v of
        PDict d \<Rightarrow> (case map_of d (PStr k) of None \<Rightarrow> Inl (KeyError k) | Some x \<Rightarrow> Inr x)
      | _ \<Rightarrow> Inl TypeError)"

text \<open>\<^verbatim>\<open>v.get(k, dflt)\<close>: only a dict has the method.\<close>

definition get_default :: "pyval \<Rightarrow> string \<Rightarrow> pyval \<Rightarrow> pyval result" where
  "get_default v k dflt =
     (case v of
        PDict d \<Rightarrow> (case map_of d (PStr k) of None \<Rightarrow> Inr dflt | Some x \<Rightarrow> Inr x)
      | _ \<Rightarrow> Inl AttributeError)"

text \<open>\<^verbatim>\<open>dict(v)\<close>: a dict is copied; anything else is left to the builtin.\<close>

definition py_dict :: "env \<Rightarrow> pyval \<Rightarrow> pyval result" where
  "py_dict env v =
     (case v of
        PDict d \<Rightarrow> Inr (PDict d)
      | _ \<Rightarrow> andThen (dict_of_iterable env v) (\<lambda>d. Inr (PDict d)))"

text \<open>
  \<^verbatim>\<open>int(v)\<close>: a string is parsed (\<^verbatim>\<open>ValueError\<close> when it is no integer literal), a float is
  truncated towards zero, and \<^verbatim>\<open>None\<close>, containers and objects are a \<^verbatim>\<open>TypeError\<close>.
\<close>

definition py_int :: "env \<Rightarrow> pyval \<Rightarrow> int result" where
  "py_int env v =
     (case v of
        PInt n \<Rightarrow> Inr n
      | PBool b \<Rightarrow> Inr (if b then 1 else 0)
      | PFloat f \<Rightarrow>
          (case f of
             Finite r \<Rightarrow> Inr (if 0 \<le> r then \<lfloor>r\<rfloor> else \<lceil>r\<rceil>)
           | NaN \<Rightarrow> Inl ValueError
           | _ \<Rightarrow> Inl OverflowError)
      | PStr s \<Rightarrow> (case int_of_str env s of None \<Rightarrow> Inl ValueError | Some n \<Rightarrow> Inr n)
      | _ \<Rightarrow> Inl TypeError)"

text \<open>
  \<^verbatim>\<open>float(v)\<close>: an integer of magnitude at most \<open>2^53\<close> is exact; a larger one is rounded by
  the builtin, or is an \<^verbatim>\<open>OverflowError\<close>.
\<close>

definition py_float :: "env \<Rightarrow> pyval \<Rightarrow> pyfloat result" where
  "py_float env v =
     (case v of
        PFloat f \<Rightarrow> Inr f
      | PInt n \<Rightarrow>
          (if \<bar>n\<bar> \<le> 2 ^ 53 then Inr (Finite (of_int n))
           else (case round_big_int env n of None \<Rightarrow> Inl OverflowError | Some f \<Rightarrow> Inr f))
      | PBool b \<Rightarrow> Inr (Finite (if b then 1 else 0))
      | PStr s \<Rightarrow> (case float_of_str env s of None \<Rightarrow> Inl ValueError | Some f \<Rightarrow> Inr f)
      | _ \<Rightarrow> Inl TypeError)"

text \<open>\<^verbatim>\<open>str(v)\<close>: a string is itself; floats and containers are printed by the builtin.\<close>

fun dec_nat :: "nat \<Rightarrow> string" where
  "dec_nat n =
     (if n < 10 then [''0123456789'' ! n]
      else dec_nat (n div 10) @ [''0123456789'' ! (n mod 10)])"

declare dec_nat.simps [simp del]

definition py_str :: "env \<Rightarrow> pyval \<Rightarrow> string" where
  "py_str env v =
     (case v of
        PStr s \<Rightarrow> s
      | PNone \<Rightarrow> ''None''
      | PBool b \<Rightarrow> (if b then ''True'' else ''False'')
      | PInt n \<Rightarrow> (if n < 0 then CHR ''-'' # dec_nat (nat (- n)) else dec_nat (nat n))
      | PObj s \<Rightarrow> s
      | _ \<Rightarrow> repr_of env v)"

text \<open>Truth value of a formatter's result: \<^verbatim>\<open>None\<close> and the empty dict are false.\<close>

fun py_truthy :: "pyval \<Rightarrow> bool" where
  "py_truthy PNone = False"
| "py_truthy (PBool b) = b"
| "py_truthy (PInt n) = (n \<noteq> 0)"
| "py_truthy (PFloat f) = (f \<noteq> Finite 0)"
| "py_truthy (PStr s) = (s \<noteq> [])"
| "py_truthy (PList xs) = (xs \<noteq> [])"
| "py_truthy (PDict d) = (d \<noteq> [])"
| "py_truthy (PObj _) = True"

text \<open>Python's \<^verbatim>\<open>v == 0\<close> on numbers: \<^verbatim>\<open>0\<close>, \<^verbatim>\<open>0.0\<close> and \<^verbatim>\<open>False\<close> are equal to zero.\<close>

fun py_eq_zero :: "pyval \<Rightarrow> bool" where
  "py_eq_zero (PInt n) = (n = 0)"
| "py_eq_zero (PFloat f) = (f = Finite 0)"
| "py_eq_zero (PBool b) = (\<not> b)"
| "py_eq_zero _ = False"

text \<open>A dict display with string keys, and reading a field of a record that was built.\<close>

definition mk_dict :: "(string \<times> pyval) list \<Rightarrow> pyval" where
  "mk_dict kvs = PDict (map (\<lambda>(k, v). (PStr k, v)) kvs)"

definition field :: "pyval \<Rightarrow> string \<Rightarrow> pyval option" where
  "field v k = (case v of PDict d \<Rightarrow> map_of d (PStr k) | _ \<Rightarrow> None)"

section \<open>Effects\<close>

text \<open>
  Every call of the logger and of a collaborator is recorded, in the order of the calls.
  A log entry keeps the level and the values the message is formatted from.
\<close>

datatype level = Debug | Info | Warning | Error

datatype logmsg =
    MsgValidatedNode pyval
  | MsgNodeValidationFailed pyexc
  | MsgErrorNode pyexc
  | MsgValidatedText pyval
  | MsgErrorText pyexc
  | MsgValidatedTelemetry pyval
  | MsgErrorTelemetry pyexc
  | MsgProcessing string
  | MsgStoredNode pyval
  | MsgNodeLine pyval pyval pyval
  | MsgStoredText pyval
  | MsgTextLine pyval pyval pyval pyval
  | MsgUnknownType pyval
  | MsgErrorProcessing string pyexc
  | MsgDecodeMessage pyexc
  | MsgDecodeNode pyexc
  | MsgRetrievingMessages
  | MsgRetrievingNodes
  | MsgFoundMessages nat
  | MsgFoundNodes nat

datatype event =
    Log level logmsg
  | Validate pyval schema
  | StoreNode string
  | StoreMessage string
  | LoadMessages int
  | LoadNodes int

fun is_store :: "event \<Rightarrow> bool" where
  "is_store (StoreNode _) = True"
| "is_store (StoreMessage _) = True"
| "is_store _ = False"

section \<open>The normalizers\<close>

subsection \<open>\<^verbatim>\<open>_extract_metrics\<close>\<close>

definition extract_metrics :: "pyval \<Rightarrow> pyval result" where
  "extract_metrics packet =
     andThen (getitem packet ''rxTime'') (\<lambda>rx_time.
     andThen (get_default packet ''rxSnr'' PNone) (\<lambda>rx_snr.
     andThen (get_default packet ''rxRssi'' PNone) (\<lambda>rx_rssi.
     andThen (get_default packet ''hopLimit'' (PInt 3)) (\<lambda>hop_limit.
       Inr (mk_dict [(''rx_time'', rx_time), (''rx_snr'', rx_snr),
                     (''rx_rssi'', rx_rssi), (''hop_limit'', hop_limit)])))))"

subsection \<open>The metrics that \<^verbatim>\<open>_process_nodeinfo\<close> and \<^verbatim>\<open>_process_textmessage\<close> build inline\<close>

definition int_item :: "env \<Rightarrow> pyval \<Rightarrow> string \<Rightarrow> pyval result" where
  "int_item env v k = andThen (getitem v k) (\<lambda>x. andThen (py_int env x) (\<lambda>n. Inr (PInt n)))"

definition str_item :: "env \<Rightarrow> pyval \<Rightarrow> string \<Rightarrow> pyval result" where
  "str_item env v k = andThen (getitem v k) (\<lambda>x. Inr (PStr (py_str env x)))"

definition float_item :: "env \<Rightarrow> pyval \<Rightarrow> string \<Rightarrow> pyval result" where
  "float_item env v k = andThen (getitem v k) (\<lambda>x. andThen (py_float env x) (\<lambda>f. Inr (PFloat f)))"

definition int_get :: "env \<Rightarrow> pyval \<Rightarrow> string \<Rightarrow> pyval \<Rightarrow> pyval result" where
  "int_get env v k dflt =
     andThen (get_default v k dflt) (\<lambda>x. andThen (py_int env x) (\<lambda>n. Inr (PInt n)))"

definition float_get :: "env \<Rightarrow> pyval \<Rightarrow> string \<Rightarrow> pyval \<Rightarrow> pyval result" where
  "float_get env v k dflt =
     andThen (get_default v k dflt) (\<lambda>x. andThen (py_float env x) (\<lambda>f. Inr (PFloat f)))"

definition inline_metrics :: "env \<Rightarrow> pyval \<Rightarrow> pyval result" where
  "inline_metrics env packet =
     andThen (int_item env packet ''rxTime'') (\<lambda>rx_time.
     andThen (float_get env packet ''rxSnr'' (PInt 0)) (\<lambda>rx_snr.
     andThen (int_get env packet ''rxRssi'' (PInt 0)) (\<lambda>rx_rssi.
     andThen (int_get env packet ''hopLimit'' (PInt 3)) (\<lambda>hop_limit.
       Inr (mk_dict [(''rx_time'', rx_time), (''rx_snr'', rx_snr),
                     (''rx_rssi'', rx_rssi), (''hop_limit'', hop_limit)])))))"

subsection \<open>\<^verbatim>\<open>_process_nodeinfo\<close>\<close>

text \<open>The dict display of lines 68 to 90, evaluated from top to bottom.\<close>

definition user_dict :: "env \<Rightarrow> pyval \<Rightarrow> pyval result" where
  "user_dict env packet =
     andThen (getitem packet ''decoded'') (\<lambda>decoded.
     andThen (getitem decoded ''user'') (\<lambda>user. py_dict env user))"

definition build_user :: "env \<Rightarrow> pyval \<Rightarrow> pyval result" where
  "build_user env user_info =
     andThen (str_item env user_info ''id'') (\<lambda>uid.
     andThen (str_item env user_info ''longName'') (\<lambda>long_name.
     andThen (str_item env user_info ''shortName'') (\<lambda>short_name.
     andThen (str_item env user_info ''macaddr'') (\<lambda>macaddr.
     andThen (str_item env user_info ''hwModel'') (\<lambda>hw_model.
     andThen (str_item env user_info ''raw'') (\<lambda>raw.
       Inr (mk_dict [(''id'', uid), (''long_name'', long_name), (''short_name'', short_name),
                     (''macaddr'', macaddr), (''hw_model'', hw_model), (''raw'', raw)])))))))"

definition build_nodeinfo :: "env \<Rightarrow> pyval \<Rightarrow> pyval result" where
  "build_nodeinfo env packet =
     andThen (user_dict env packet) (\<lambda>user_info.
     andThen (int_item env packet ''from'') (\<lambda>from_num.
     andThen (str_item env packet ''fromId'') (\<lambda>from_id.
     andThen (build_user env user_info) (\<lambda>user.
     andThen (inline_metrics env packet) (\<lambda>metrics.
     andThen (str_item env packet ''raw'') (\<lambda>raw.
       Inr (mk_dict [(''type'', PStr ''nodeinfo''), (''timestamp'', PStr (now_iso env)),
                     (''from_num'', from_num), (''from_id'', from_id), (''user'', user),
                     (''metrics'', metrics), (''raw'', raw)])))))))"

text \<open>
  The \<^verbatim>\<open>try\<close> block with its two handlers: a \<^verbatim>\<open>ValueError\<close> and any other \<^verbatim>\<open>Exception\<close> are
  logged and raised again; an exception outside \<^verbatim>\<open>Exception\<close> passes unlogged.
\<close>

definition process_nodeinfo :: "env \<Rightarrow> pyval \<Rightarrow> event list \<times> pyval result" where
  "process_nodeinfo env packet =
     (let handler = (\<lambda>e. if is_ValueError e then [Log Error (MsgNodeValidationFailed e)]
                          else if is_Exception e then [Log Error (MsgErrorNode e)] else [])
      in case build_nodeinfo env packet of
           Inl e \<Rightarrow> (handler e, Inl e)
         | Inr node_info \<Rightarrow>
             (case validate_typed_dict env node_info NodeInfoT of
                Some e \<Rightarrow> (Validate node_info NodeInfoT # handler e, Inl e)
              | None \<Rightarrow>
                  ([Validate node_info NodeInfoT, Log Debug (MsgValidatedNode node_info)],
                   Inr node_info)))"

subsection \<open>\<^verbatim>\<open>_process_textmessage\<close>\<close>

definition build_textmessage :: "env \<Rightarrow> pyval \<Rightarrow> pyval result" where
  "build_textmessage env packet =
     andThen (int_item env packet ''from'') (\<lambda>from_num.
     andThen (str_item env packet ''fromId'') (\<lambda>from_id.
     andThen (int_item env packet ''to'') (\<lambda>to_num.
     andThen (str_item env packet ''toId'') (\<lambda>to_id.
     andThen (getitem packet ''decoded'') (\<lambda>decoded.
     andThen (str_item env decoded ''text'') (\<lambda>text.
     andThen (inline_metrics env packet) (\<lambda>metrics.
     andThen (str_item env packet ''raw'') (\<lambda>raw.
       Inr (mk_dict [(''type'', PStr ''text''), (''timestamp'', PStr (now_iso env)),
                     (''from_num'', from_num), (''from_id'', from_id),
                     (''to_num'', to_num), (''to_id'', to_id), (''text'', text),
                     (''metrics'', metrics), (''raw'', raw)])))))))))"

definition process_textmessage :: "env \<Rightarrow> pyval \<Rightarrow> event list \<times> pyval result" where
  "process_textmessage env packet =
     (let handler = (\<lambda>e. if is_Exception e then [Log Error (MsgErrorText e)] else [])
      in case build_textmessage env packet of
           Inl e \<Rightarrow> (handler e, Inl e)
         | Inr text_message \<Rightarrow>
             (case validate_typed_dict env text_message TextMessageT of
                Some e \<Rightarrow> (Validate text_message TextMessageT # handler e, Inl e)
              | None \<Rightarrow>
                  ([Validate text_message TextMessageT, Log Debug (MsgValidatedText text_message)],
                   Inr text_message)))"

subsection \<open>\<^verbatim>\<open>_process_device_telemetry\<close>\<close>

definition build_device_metrics :: "env \<Rightarrow> pyval \<Rightarrow> pyval result" where
  "build_device_metrics env telemetry =
     andThen (getitem telemetry ''deviceMetrics'') (\<lambda>dm1.
     andThen (int_item env dm1 ''batteryLevel'') (\<lambda>battery_level.
     andThen (getitem telemetry ''deviceMetrics'') (\<lambda>dm2.
     andThen (float_item env dm2 ''voltage'') (\<lambda>voltage.
     andThen (getitem telemetry ''deviceMetrics'') (\<lambda>dm3.
     andThen (float_get env dm3 ''channelUtilization'' (PFloat (Finite 0))) (\<lambda>channel_utilization.
     andThen (getitem telemetry ''deviceMetrics'') (\<lambda>dm4.
     andThen (float_item env dm4 ''airUtilTx'') (\<lambda>air_util_tx.
     andThen (getitem telemetry ''deviceMetrics'') (\<lambda>dm5.
     andThen (int_item env dm5 ''uptimeSeconds'') (\<lambda>uptime_seconds.
       Inr (mk_dict [(''battery_level'', battery_level), (''voltage'', voltage),
                     (''channel_utilization'', channel_utilization),
                     (''air_util_tx'', air_util_tx),
                     (''uptime_seconds'', uptime_seconds)])))))))))))"

definition build_device_telemetry :: "env \<Rightarrow> pyval \<Rightarrow> pyval result" where
  "build_device_telemetry env packet =
     andThen (getitem packet ''decoded'') (\<lambda>decoded.
     andThen (getitem decoded ''telemetry'') (\<lambda>telemetry.
     andThen (int_item env packet ''from'') (\<lambda>from_num.
     andThen (str_item env packet ''fromId'') (\<lambda>from_id.
     andThen (build_device_metrics env telemetry) (\<lambda>device_metrics.
     andThen (extract_metrics packet) (\<lambda>metrics.
     andThen (str_item env packet ''raw'') (\<lambda>raw.
       Inr (mk_dict [(''type'', PStr ''device_telemetry''), (''timestamp'', PStr (now_iso env)),
                     (''from_num'', from_num), (''from_id'', from_id),
                     (''device_metrics'', device_metrics), (''metrics'', metrics),
                     (''raw'', raw)]))))))))"

definition process_device_telemetry :: "env \<Rightarrow> pyval \<Rightarrow> event list \<times> pyval result" where
  "process_device_telemetry env packet =
     (let handler = (\<lambda>e. if is_Exception e then [Log Error (MsgErrorTelemetry e)] else [])
      in case build_device_telemetry env packet of
           Inl e \<Rightarrow> (handler e, Inl e)
         | Inr device_telemetry \<Rightarrow>
             (case validate_typed_dict env device_telemetry DeviceTelemetryT of
                Some e \<Rightarrow> (Validate device_telemetry DeviceTelemetryT # handler e, Inl e)
              | None \<Rightarrow>
                  ([Validate device_telemetry DeviceTelemetryT,
                    Log Debug (MsgValidatedTelemetry device_telemetry)],
                   Inr device_telemetry)))"

section \<open>The dispatcher\<close>

text \<open>
  The two branches of \<^verbatim>\<open>process_packet\<close>. The record is normalized, serialized and handed
  to the store; the two \<^verbatim>\<open>info\<close> lines that follow read their fields from the record.
\<close>

definition node_line :: "pyval \<Rightarrow> logmsg result" where
  "node_line processed =
     andThen (getitem processed ''timestamp'') (\<lambda>ts.
     andThen (getitem processed ''from_id'') (\<lambda>from_id.
     andThen (getitem processed ''user'') (\<lambda>user.
     andThen (getitem user ''long_name'') (\<lambda>long_name.
       Inr (MsgNodeLine ts from_id long_name)))))"

definition text_line :: "pyval \<Rightarrow> logmsg result" where
  "text_line processed =
     andThen (getitem processed ''timestamp'') (\<lambda>ts.
     andThen (getitem processed ''from_id'') (\<lambda>from_id.
     andThen (getitem processed ''to_id'') (\<lambda>to_id.
     andThen (getitem processed ''text'') (\<lambda>text.
       Inr (MsgTextLine ts from_id to_id text)))))"

definition node_branch :: "env \<Rightarrow> pyval \<Rightarrow> event list \<times> unit result" where
  "node_branch env packet =
     (case process_nodeinfo env packet of
        (t1, Inl e) \<Rightarrow> (t1, Inl e)
      | (t1, Inr processed) \<Rightarrow>
          (case json_dumps env processed of
             Inl e \<Rightarrow> (t1, Inl e)
           | Inr js \<Rightarrow>
               (case store_node env js of
                  Some e \<Rightarrow> (t1 @ [StoreNode js], Inl e)
                | None \<Rightarrow>
                    (case getitem processed ''from_id'' of
                       Inl e \<Rightarrow> (t1 @ [StoreNode js], Inl e)
                     | Inr from_id \<Rightarrow>
                         (case node_line processed of
                            Inl e \<Rightarrow> (t1 @ [StoreNode js, Log Info (MsgStoredNode from_id)], Inl e)
                          | Inr line \<Rightarrow>
                              (t1 @ [StoreNode js, Log Info (MsgStoredNode from_id), Log Info line],
                               Inr ()))))))"

definition text_branch :: "env \<Rightarrow> pyval \<Rightarrow> event list \<times> unit result" where
  "text_branch env packet =
     (case process_textmessage env packet of
        (t1, Inl e) \<Rightarrow> (t1, Inl e)
      | (t1, Inr processed) \<Rightarrow>
          (case json_dumps env processed of
             Inl e \<Rightarrow> (t1, Inl e)
           | Inr js \<Rightarrow>
               (case store_message env js of
                  Some e \<Rightarrow> (t1 @ [StoreMessage js], Inl e)
                | None \<Rightarrow>
                    (case getitem processed ''from_id'' of
                       Inl e \<Rightarrow> (t1 @ [StoreMessage js], Inl e)
                     | Inr from_id \<Rightarrow>
                         (case text_line processed of
                            Inl e \<Rightarrow> (t1 @ [StoreMessage js, Log Info (MsgStoredText from_id)], Inl e)
                          | Inr line \<Rightarrow>
                              (t1 @ [StoreMessage js, Log Info (MsgStoredText from_id), Log Info line],
                               Inr ()))))))"

text \<open>The body of the \<^verbatim>\<open>try\<close> block of \<^verbatim>\<open>process_packet\<close>.\<close>

definition process_packet_body :: "env \<Rightarrow> pyval \<Rightarrow> string \<Rightarrow> event list \<times> unit result" where
  "process_packet_body env packet packet_type =
     (case andThen (getitem packet ''decoded'') (\<lambda>decoded. getitem decoded ''portnum'') of
        Inl e \<Rightarrow> ([Log Debug (MsgProcessing packet_type)], Inl e)
      | Inr portnum \<Rightarrow>
          if portnum = PStr ''NODEINFO_APP'' then
            (case node_branch env packet of
               (t, r) \<Rightarrow> (Log Debug (MsgProcessing packet_type) # t, r))
          else if portnum = PStr ''TEXT_MESSAGE_APP'' then
            (case text_branch env packet of
               (t, r) \<Rightarrow> (Log Debug (MsgProcessing packet_type) # t, r))
          else
            ([Log Debug (MsgProcessing packet_type), Log Warning (MsgUnknownType portnum)],
             Inr ()))"

text \<open>
  \<^verbatim>\<open>process_packet\<close>: the handler \<^verbatim>\<open>except Exception\<close> logs and returns; an exception of
  another class leaves the function.
\<close>

definition process_packet :: "env \<Rightarrow> pyval \<Rightarrow> string \<Rightarrow> event list \<times> unit result" where
  "process_packet env packet packet_type =
     (case process_packet_body env packet packet_type of
        (t, Inr u) \<Rightarrow> (t, Inr ())
      | (t, Inl e) \<Rightarrow>
          if is_Exception e then (t @ [Log Error (MsgErrorProcessing packet_type e)], Inr ())
          else (t, Inl e))"

section \<open>The display formatters\<close>

definition message_projection :: "pyval \<Rightarrow> pyval result" where
  "message_projection data =
     andThen (getitem data ''timestamp'') (\<lambda>ts.
     andThen (getitem data ''from_id'') (\<lambda>from_id.
     andThen (getitem data ''to_id'') (\<lambda>to_id.
     andThen (getitem data ''text'') (\<lambda>text.
       Inr (mk_dict [(''timestamp'', ts), (''from'', from_id), (''to'', to_id),
                     (''text'', text)])))))"

definition node_projection :: "pyval \<Rightarrow> pyval result" where
  "node_projection data =
     andThen (getitem data ''timestamp'') (\<lambda>ts.
     andThen (getitem data ''from_id'') (\<lambda>from_id.
     andThen (getitem data ''user'') (\<lambda>user.
     andThen (getitem user ''long_name'') (\<lambda>long_name.
       Inr (mk_dict [(''timestamp'', ts), (''id'', from_id), (''name'', long_name)])))))"

text \<open>Only a \<^verbatim>\<open>json.JSONDecodeError\<close> is handled; the result \<^verbatim>\<open>None\<close> is \<open>PNone\<close>.\<close>

definition format_message_for_display :: "env \<Rightarrow> string \<Rightarrow> event list \<times> pyval result" where
  "format_message_for_display env json_str =
     (case andThen (json_loads env json_str) message_projection of
        Inr d \<Rightarrow> ([], Inr d)
      | Inl e \<Rightarrow>
          if is_JSONDecodeError e then ([Log Error (MsgDecodeMessage e)], Inr PNone)
          else ([], Inl e))"

definition format_node_for_display :: "env \<Rightarrow> string \<Rightarrow> event list \<times> pyval result" where
  "format_node_for_display env json_str =
     (case andThen (json_loads env json_str) node_projection of
        Inr d \<Rightarrow> ([], Inr d)
      | Inl e \<Rightarrow>
          if is_JSONDecodeError e then ([Log Error (MsgDecodeNode e)], Inr PNone)
          else ([], Inl e))"

text \<open>The \<^verbatim>\<open>for\<close> loop of the two listing functions, with the list built so far.\<close>

fun format_each ::
  "(string \<Rightarrow> event list \<times> pyval result) \<Rightarrow> string list \<Rightarrow> pyval list \<Rightarrow>
   event list \<times> pyval list result" where
  "format_each fmt [] formatted = ([], Inr formatted)"
| "format_each fmt (msg # rest) formatted =
     (case fmt msg of
        (t, Inl e) \<Rightarrow> (t, Inl e)
      | (t, Inr fmt_msg) \<Rightarrow>
          (case format_each fmt rest
                  (if py_truthy fmt_msg then formatted @ [fmt_msg] else formatted) of
             (t', r) \<Rightarrow> (t @ t', r)))"

definition get_formatted_messages :: "env \<Rightarrow> int \<Rightarrow> event list \<times> pyval list result" where
  "get_formatted_messages env limit =
     (case load_messages env limit of
        Inl e \<Rightarrow> ([Log Debug MsgRetrievingMessages, LoadMessages limit], Inl e)
      | Inr messages \<Rightarrow>
          (case format_each (format_message_for_display env) messages [] of
             (t, r) \<Rightarrow>
               ([Log Debug MsgRetrievingMessages, LoadMessages limit,
                 Log Debug (MsgFoundMessages (length messages))] @ t, r)))"

definition get_formatted_nodes :: "env \<Rightarrow> int \<Rightarrow> event list \<times> pyval list result" where
  "get_formatted_nodes env limit =
     (case load_nodes env limit of
        Inl e \<Rightarrow> ([Log Debug MsgRetrievingNodes, LoadNodes limit], Inl e)
      | Inr nodes \<Rightarrow>
          (case format_each (format_node_for_display env) nodes [] of
             (t, r) \<Rightarrow>
               ([Log Debug MsgRetrievingNodes, LoadNodes limit,
                 Log Debug (MsgFoundNodes (length nodes))] @ t, r)))"

section \<open>A concrete environment\<close>

text \<open>
  The theorems below hold for every environment. To run the handler on concrete packets,
  this section fixes one: a clock reading, decimal integer literals, a printer for the
  JSON text of a value, a reader that knows the texts of the records listed in
  \<open>fixture_records\<close> and rejects every other text, a validator, and a store that accepts
  every write.
\<close>

fun digits_value :: "string \<Rightarrow> nat \<Rightarrow> nat option" where
  "digits_value [] acc = Some acc"
| "digits_value (c # cs) acc =
     (if c \<in> set ''0123456789'' then digits_value cs (10 * acc + (of_char c - 48)) else None)"

definition fixture_int_of_str :: "string \<Rightarrow> int option" where
  "fixture_int_of_str s =
     (case s of
        [] \<Rightarrow> None
      | c # cs \<Rightarrow>
          if c = CHR ''-'' then
            (if cs = [] then None else map_option (\<lambda>n. - int n) (digits_value cs 0))
          else map_option int (digits_value s 0))"

fun json_escape :: "string \<Rightarrow> string" where
  "json_escape [] = []"
| "json_escape (c # cs) =
     (if c = CHR 0x22 \<or> c = CHR 0x5C then CHR 0x5C # c # json_escape cs
      else c # json_escape cs)"

fun join_with :: "string \<Rightarrow> string list \<Rightarrow> string" where
  "join_with sep [] = []"
| "join_with sep [x] = x"
| "join_with sep (x # y # ys) = x @ sep @ join_with sep (y # ys)"

text \<open>
  The text \<^verbatim>\<open>json.dumps\<close> prints, for values made of \<^verbatim>\<open>None\<close>, booleans, integers, whole
  non-negative floats, the special floats (printed \<^verbatim>\<open>NaN\<close>, \<^verbatim>\<open>Infinity\<close> and \<^verbatim>\<open>-Infinity\<close>,
  which \<^verbatim>\<open>json.loads\<close> reads back although they are not JSON), strings without control
  characters, lists and dicts with string keys; \<open>None\<close> for any other value.
\<close>

fun json_text :: "pyval \<Rightarrow> string option"
  and json_items :: "pyval list \<Rightarrow> string list option"
  and json_members :: "(pyval \<times> pyval) list \<Rightarrow> string list option" where
  "json_text PNone = Some ''null''"
| "json_text (PBool b) = Some (if b then ''true'' else ''false'')"
| "json_text (PInt n) = Some (if n < 0 then CHR ''-'' # dec_nat (nat (- n)) else dec_nat (nat n))"
| "json_text (PFloat f) =
     (case f of
        Finite r \<Rightarrow>
          (if r = of_int \<lfloor>r\<rfloor> \<and> 0 \<le> r then Some (dec_nat (nat \<lfloor>r\<rfloor>) @ ''.0'') else None)
      | PosInf \<Rightarrow> Some ''Infinity''
      | NegInf \<Rightarrow> Some ''-Infinity''
      | NaN \<Rightarrow> Some ''NaN'')"
| "json_text (PStr s) = Some (CHR 0x22 # json_escape s @ [CHR 0x22])"
| "json_text (PList xs) =
     (case json_items xs of None \<Rightarrow> None | Some ts \<Rightarrow> Some (''['' @ join_with '', '' ts @ '']''))"
| "json_text (PDict d) =
     (case json_members d of None \<Rightarrow> None | Some ts \<Rightarrow> Some (''{'' @ join_with '', '' ts @ ''}''))"
| "json_text (PObj s) = None"
| "json_items [] = Some []"
| "json_items (x # xs) =
     (case json_text x of None \<Rightarrow> None
      | Some t \<Rightarrow> (case json_items xs of None \<Rightarrow> None | Some ts \<Rightarrow> Some (t # ts)))"
| "json_members [] = Some []"
| "json_members (kv # kvs) =
     (case fst kv of
        PStr k \<Rightarrow>
          (case json_text (snd kv) of None \<Rightarrow> None
           | Some t \<Rightarrow>
               (case json_members kvs of None \<Rightarrow> None
                | Some ts \<Rightarrow> Some ((CHR 0x22 # json_escape k @ [CHR 0x22] @ '': '' @ t) # ts)))
      | _ \<Rightarrow> None)"

definition fixture_dumps :: "pyval \<Rightarrow> string result" where
  "fixture_dumps v = (case json_text v of None \<Rightarrow> Inl TypeError | Some s \<Rightarrow> Inr s)"

definition fixture_metrics :: pyval where
  "fixture_metrics =
     mk_dict [(''rx_time'', PInt 100), (''rx_snr'', PFloat (Finite 0)),
              (''rx_rssi'', PInt 0), (''hop_limit'', PInt 3)]"

definition fixture_text_record :: "string \<Rightarrow> pyval" where
  "fixture_text_record from_id =
     mk_dict [(''type'', PStr ''text''), (''timestamp'', PStr ''2025-01-01T12:00:00''),
              (''from_num'', PInt 1), (''from_id'', PStr from_id),
              (''to_num'', PInt 2), (''to_id'', PStr ''^all''), (''text'', PStr ''hi''),
              (''metrics'', fixture_metrics), (''raw'', PStr ''raw'')]"

definition fixture_node_record :: pyval where
  "fixture_node_record =
     mk_dict [(''type'', PStr ''nodeinfo''), (''timestamp'', PStr ''2025-01-01T12:00:00''),
              (''from_num'', PInt 1), (''from_id'', PStr ''!01''),
              (''user'', mk_dict [(''id'', PStr ''!01''), (''long_name'', PStr ''Base''),
                                  (''short_name'', PStr ''B''), (''macaddr'', PStr ''mac''),
                                  (''hw_model'', PStr ''TBEAM''), (''raw'', PStr ''u'')]),
              (''metrics'', fixture_metrics), (''raw'', PStr ''raw'')]"

definition fixture_records :: "pyval list" where
  "fixture_records =
     [fixture_text_record ''!01'', fixture_text_record ''None'', fixture_node_record,
      PDict [], PList [], PFloat NaN]"

definition fixture_loads :: "string \<Rightarrow> pyval result" where
  "fixture_loads s =
     (case find (\<lambda>r. json_text r = Some s) fixture_records of
        Some r \<Rightarrow> Inr r
      | None \<Rightarrow> Inl JSONDecodeError)"

text \<open>
  Modelled from the spec: \<^verbatim>\<open>validate_typed_dict\<close> and the shapes of \<^verbatim>\<open>meshtastic_types\<close>
  are imported by the handler and are not among the sources. Section 4.1 has the validator
  fail when a required field is absent, when a present field has another type than the
  shape declares (an optional field may be absent or \<^verbatim>\<open>None\<close>), or when the \<^verbatim>\<open>type\<close> tag is
  outside its literal set; section 3 lists the fields.
\<close>

definition has_str :: "pyval \<Rightarrow> string \<Rightarrow> bool" where
  "has_str r k = (case field r k of Some (PStr _) \<Rightarrow> True | _ \<Rightarrow> False)"

definition has_int :: "pyval \<Rightarrow> string \<Rightarrow> bool" where
  "has_int r k = (case field r k of Some (PInt _) \<Rightarrow> True | _ \<Rightarrow> False)"

definition has_float :: "pyval \<Rightarrow> string \<Rightarrow> bool" where
  "has_float r k = (case field r k of Some (PFloat _) \<Rightarrow> True | _ \<Rightarrow> False)"

definition opt_int :: "pyval \<Rightarrow> string \<Rightarrow> bool" where
  "opt_int r k =
     (case field r k of None \<Rightarrow> True | Some PNone \<Rightarrow> True | Some (PInt _) \<Rightarrow> True | _ \<Rightarrow> False)"

definition opt_float :: "pyval \<Rightarrow> string \<Rightarrow> bool" where
  "opt_float r k =
     (case field r k of None \<Rightarrow> True | Some PNone \<Rightarrow> True | Some (PFloat _) \<Rightarrow> True | _ \<Rightarrow> False)"

definition valid_metrics :: "pyval \<Rightarrow> bool" where
  "valid_metrics m \<longleftrightarrow>
     has_int m ''rx_time'' \<and> opt_float m ''rx_snr'' \<and> opt_int m ''rx_rssi'' \<and>
     has_int m ''hop_limit''"

definition valid_user :: "pyval \<Rightarrow> bool" where
  "valid_user u \<longleftrightarrow>
     has_str u ''id'' \<and> has_str u ''long_name'' \<and> has_str u ''short_name'' \<and>
     has_str u ''macaddr'' \<and> has_str u ''hw_model'' \<and> has_str u ''raw''"

definition valid_device_metrics :: "pyval \<Rightarrow> bool" where
  "valid_device_metrics m \<longleftrightarrow>
     has_int m ''battery_level'' \<and> has_float m ''voltage'' \<and>
     has_float m ''channel_utilization'' \<and> has_float m ''air_util_tx'' \<and>
     has_int m ''uptime_seconds''"

definition nested :: "pyval \<Rightarrow> string \<Rightarrow> (pyval \<Rightarrow> bool) \<Rightarrow> bool" where
  "nested r k ok = (case field r k of None \<Rightarrow> False | Some v \<Rightarrow> ok v)"

fun valid_record :: "pyval \<Rightarrow> schema \<Rightarrow> bool" where
  "valid_record r NodeInfoT \<longleftrightarrow>
     field r ''type'' = Some (PStr ''nodeinfo'') \<and> has_str r ''timestamp'' \<and>
     has_int r ''from_num'' \<and> has_str r ''from_id'' \<and> nested r ''user'' valid_user \<and>
     nested r ''metrics'' valid_metrics \<and> has_str r ''raw''"
| "valid_record r TextMessageT \<longleftrightarrow>
     field r ''type'' = Some (PStr ''text'') \<and> has_str r ''timestamp'' \<and>
     has_int r ''from_num'' \<and> has_str r ''from_id'' \<and> has_int r ''to_num'' \<and>
     has_str r ''to_id'' \<and> has_str r ''text'' \<and> nested r ''metrics'' valid_metrics \<and>
     has_str r ''raw''"
| "valid_record r DeviceTelemetryT \<longleftrightarrow>
     field r ''type'' = Some (PStr ''device_telemetry'') \<and> has_str r ''timestamp'' \<and>
     has_int r ''from_num'' \<and> has_str r ''from_id'' \<and>
     nested r ''device_metrics'' valid_device_metrics \<and>
     nested r ''metrics'' valid_metrics \<and> has_str r ''raw''"

definition spec_validate :: "pyval \<Rightarrow> schema \<Rightarrow> pyexc option" where
  "spec_validate r T = (if valid_record r T then None else Some ValueError)"

definition fixture_env :: env where
  "fixture_env =
     \<lparr> now_iso = ''2025-01-01T12:00:00'',
       int_of_str = fixture_int_of_str,
       float_of_str = (\<lambda>s. map_option (\<lambda>n. Finite (of_int n)) (fixture_int_of_str s)),
       round_big_int = (\<lambda>n. None),
       repr_of = (\<lambda>v. ''?''),
       dict_of_iterable = (\<lambda>v. Inl TypeError),
       json_dumps = fixture_dumps,
       json_loads = fixture_loads,
       validate_typed_dict = spec_validate,
       store_node = (\<lambda>js. None),
       store_message = (\<lambda>js. None),
       load_messages = (\<lambda>limit. Inr [''{}'']),
       load_nodes = (\<lambda>limit. Inr [''{}'']) \<rparr>"

text \<open>The packets of the examples.\<close>

definition text_packet :: "pyval \<Rightarrow> pyval" where
  "text_packet from_id =
     mk_dict [(''from'', PInt 1), (''fromId'', from_id), (''to'', PInt 2),
              (''toId'', PStr ''^all''),
              (''decoded'', mk_dict [(''portnum'', PStr ''TEXT_MESSAGE_APP''),
                                     (''text'', PStr ''hi'')]),
              (''rxTime'', PInt 100), (''raw'', PObj ''raw'')]"

definition node_packet :: "(string \<times> pyval) list \<Rightarrow> pyval" where
  "node_packet name =
     mk_dict [(''from'', PInt 1), (''fromId'', PStr ''!01''),
              (''decoded'',
                 mk_dict [(''portnum'', PStr ''NODEINFO_APP''),
                          (''user'', mk_dict ([(''id'', PStr ''!01'')] @ name @
                              [(''shortName'', PStr ''B''), (''macaddr'', PStr ''mac''),
                               (''hwModel'', PStr ''TBEAM''), (''raw'', PObj ''u'')]))]),
              (''rxTime'', PInt 100), (''raw'', PObj ''raw'')]"

definition waypoint_packet :: pyval where
  "waypoint_packet =
     mk_dict [(''from'', PInt 1), (''fromId'', PStr ''!01''),
              (''decoded'', mk_dict [(''portnum'', PStr ''WAYPOINT_APP'')]),
              (''rxTime'', PInt 100), (''raw'', PObj ''raw'')]"

text \<open>
  A necessary condition for a string to be a JSON text (RFC 8259): after optional white
  space it begins a value, so its first character is a brace, a bracket, a quote, a minus
  sign, a digit, or the first letter of \<^verbatim>\<open>true\<close>, \<^verbatim>\<open>false\<close> or \<^verbatim>\<open>null\<close>. A string that fails
  the test is not well-formed JSON.
\<close>

definition json_value_begins :: "string \<Rightarrow> bool" where
  "json_value_begins s =
     (case dropWhile (\<lambda>c. c \<in> set [CHR 0x20, CHR 0x09, CHR 0x0A, CHR 0x0D]) s of
        [] \<Rightarrow> False
      | c # cs \<Rightarrow> c \<in> set (CHR 0x22 # ''{[-0123456789tfn''))"

text \<open>A telemetry packet.\<close>

definition telemetry_packet :: pyval where
  "telemetry_packet =
     mk_dict [(''from'', PInt 1), (''fromId'', PStr ''!01''),
              (''decoded'',
                 mk_dict [(''portnum'', PStr ''TELEMETRY_APP''),
                          (''telemetry'',
                             mk_dict [(''deviceMetrics'',
                                mk_dict [(''batteryLevel'', PInt 90),
                                         (''voltage'', PFloat (Finite 4)),
                                         (''airUtilTx'', PFloat (Finite 1)),
                                         (''uptimeSeconds'', PInt 60)])])]),
              (''rxTime'', PInt 100), (''rxSnr'', PFloat (Finite 7)), (''raw'', PObj ''raw'')]"

section \<open>Exceptions raised by the collaborators\<close>

text \<open>
  The exceptions that reach \<^verbatim>\<open>process_packet\<close> from outside its own code while it handles
  one packet. In the \<^verbatim>\<open>NODEINFO_APP\<close> branch: \<^verbatim>\<open>dict\<close> raising on \<^verbatim>\<open>packet['decoded']['user']\<close>,
  the validator raising on the record built, \<^verbatim>\<open>json.dumps\<close> raising on the validated record,
  or \<^verbatim>\<open>store_node\<close> raising on its text. In the \<^verbatim>\<open>TEXT_MESSAGE_APP\<close> branch: the validator,
  \<^verbatim>\<open>json.dumps\<close> or \<^verbatim>\<open>store_message\<close>.
\<close>

definition node_raised :: "env \<Rightarrow> pyval \<Rightarrow> pyexc \<Rightarrow> bool" where
  "node_raised env packet e \<longleftrightarrow>
     (\<exists>decoded user. getitem packet ''decoded'' = Inr decoded \<and>
          getitem decoded ''user'' = Inr user \<and> py_dict env user = Inl e)
     \<or> (\<exists>r. build_nodeinfo env packet = Inr r \<and>
          (validate_typed_dict env r NodeInfoT = Some e
           \<or> validate_typed_dict env r NodeInfoT = None \<and>
             (json_dumps env r = Inl e
              \<or> (\<exists>js. json_dumps env r = Inr js \<and> store_node env js = Some e))))"

definition text_raised :: "env \<Rightarrow> pyval \<Rightarrow> pyexc \<Rightarrow> bool" where
  "text_raised env packet e \<longleftrightarrow>
     (\<exists>r. build_textmessage env packet = Inr r \<and>
          (validate_typed_dict env r TextMessageT = Some e
           \<or> validate_typed_dict env r TextMessageT = None \<and>
             (json_dumps env r = Inl e
              \<or> (\<exists>js. json_dumps env r = Inr js \<and> store_message env js = Some e))))"

text \<open>Environments whose store is cancelled while the handler awaits it.\<close>

definition cancelling_env :: env where
  "cancelling_env = fixture_env \<lparr> store_message := (\<lambda>js. Some (BaseOnly ''CancelledError'')) \<rparr>"

definition cancelling_node_env :: env where
  "cancelling_node_env = fixture_env \<lparr> store_node := (\<lambda>js. Some (BaseOnly ''CancelledError'')) \<rparr>"

text \<open>A step that, if it raises, raises an instance of \<^verbatim>\<open>Exception\<close>.\<close>

definition safe :: "'a result \<Rightarrow> bool" where
  "safe m \<longleftrightarrow> (\<forall>e. m = Inl e \<longrightarrow> is_Exception e)"

section \<open>Coerced fields\<close>

text \<open>
  A value of the record is the result of \<^verbatim>\<open>int(...)\<close>, or of \<^verbatim>\<open>float(...)\<close>, applied to the
  value read from the packet.
\<close>

definition coerced_int :: "env \<Rightarrow> pyval result \<Rightarrow> pyval option \<Rightarrow> bool" where
  "coerced_int env raw out \<longleftrightarrow>
     (\<exists>v n. raw = Inr v \<and> py_int env v = Inr n \<and> out = Some (PInt n))"

definition coerced_float :: "env \<Rightarrow> pyval result \<Rightarrow> pyval option \<Rightarrow> bool" where
  "coerced_float env raw out \<longleftrightarrow>
     (\<exists>v f. raw = Inr v \<and> py_float env v = Inr f \<and> out = Some (PFloat f))"

definition embedded_coerced :: "env \<Rightarrow> pyval \<Rightarrow> pyval \<Rightarrow> bool" where
  "embedded_coerced env p r \<longleftrightarrow>
     (\<exists>m. field r ''metrics'' = Some m \<and>
          coerced_int env (getitem p ''rxTime'') (field m ''rx_time'') \<and>
          coerced_float env (get_default p ''rxSnr'' (PInt 0)) (field m ''rx_snr'') \<and>
          coerced_int env (get_default p ''rxRssi'' (PInt 0)) (field m ''rx_rssi'') \<and>
          coerced_int env (get_default p ''hopLimit'' (PInt 3)) (field m ''hop_limit''))"

definition device_coerced :: "env \<Rightarrow> pyval \<Rightarrow> pyval \<Rightarrow> bool" where
  "device_coerced env p r \<longleftrightarrow>
     (\<exists>decoded telemetry dm out.
          getitem p ''decoded'' = Inr decoded \<and> getitem decoded ''telemetry'' = Inr telemetry \<and>
          getitem telemetry ''deviceMetrics'' = Inr dm \<and>
          field r ''device_metrics'' = Some out \<and>
          coerced_int env (getitem dm ''batteryLevel'') (field out ''battery_level'') \<and>
          coerced_float env (getitem dm ''voltage'') (field out ''voltage'') \<and>
          coerced_float env (get_default dm ''channelUtilization'' (PFloat (Finite 0)))
            (field out ''channel_utilization'') \<and>
          coerced_float env (getitem dm ''airUtilTx'') (field out ''air_util_tx'') \<and>
          coerced_int env (getitem dm ''uptimeSeconds'') (field out ''uptime_seconds''))"

text \<open>
  The metrics dict holds what \<^verbatim>\<open>packet['rxTime']\<close>, \<^verbatim>\<open>packet.get('rxSnr')\<close>,
  \<^verbatim>\<open>packet.get('rxRssi')\<close> and \<^verbatim>\<open>packet.get('hopLimit', 3)\<close> return, unconverted.
\<close>

definition metrics_as_found :: "pyval \<Rightarrow> pyval \<Rightarrow> bool" where
  "metrics_as_found p m \<longleftrightarrow>
     (\<exists>t. getitem p ''rxTime'' = Inr t \<and>
          m = mk_dict
            [(''rx_time'', t),
             (''rx_snr'', case field p ''rxSnr'' of None \<Rightarrow> PNone | Some v \<Rightarrow> v),
             (''rx_rssi'', case field p ''rxRssi'' of None \<Rightarrow> PNone | Some v \<Rightarrow> v),
             (''hop_limit'', case field p ''hopLimit'' of None \<Rightarrow> PInt 3 | Some v \<Rightarrow> v)])"

text \<open>A text packet whose numbers arrive as strings.\<close>

definition string_number_packet :: pyval where
  "string_number_packet =
     mk_dict [(''from'', PStr ''1''), (''fromId'', PStr ''!01''), (''to'', PStr ''2''),
              (''toId'', PStr ''^all''),
              (''decoded'', mk_dict [(''portnum'', PStr ''TEXT_MESSAGE_APP''),
                                     (''text'', PStr ''hi'')]),
              (''rxTime'', PStr ''100''), (''rxSnr'', PStr ''0''), (''hopLimit'', PStr ''3''),
              (''raw'', PObj ''raw'')]"

section \<open>Basic facts\<close>

lemma andThen_Inl [simp]: "andThen (Inl e) f = Inl e"
  by (simp add: andThen_def)

lemma andThen_Inr [simp]: "andThen (Inr x) f = f x"
  by (simp add: andThen_def)

lemma andThen_eq_Inr: "andThen m f = Inr y \<longleftrightarrow> (\<exists>x. m = Inr x \<and> f x = Inr y)"
  by (cases m) simp_all

lemma andThen_eq_Inl: "andThen m f = Inl e \<longleftrightarrow> m = Inl e \<or> (\<exists>x. m = Inr x \<and> f x = Inl e)"
  by (cases m) simp_all

lemma getitem_PDict:
  "getitem (PDict d) k = (case map_of d (PStr k) of None \<Rightarrow> Inl (KeyError k) | Some x \<Rightarrow> Inr x)"
  by (simp add: getitem_def)

lemma get_default_PDict:
  "get_default (PDict d) k dflt = Inr (case map_of d (PStr k) of None \<Rightarrow> dflt | Some x \<Rightarrow> x)"
  by (simp add: get_default_def split: option.splits)

lemma getitem_field: "getitem p k = Inr x \<Longrightarrow> field p k = Some x"
  by (cases p) (auto simp: getitem_def field_def split: option.splits)

lemma get_default_field:
  "get_default p k dflt = Inr x \<Longrightarrow> x = (case field p k of None \<Rightarrow> dflt | Some v \<Rightarrow> v)"
  by (cases p) (auto simp: get_default_def field_def split: option.splits)

lemma field_mk_dict: "field (mk_dict kvs) k = map_of kvs k"
  by (induction kvs) (auto simp: field_def mk_dict_def)

lemma getitem_mk_dict:
  "getitem (mk_dict kvs) k = (case map_of kvs k of None \<Rightarrow> Inl (KeyError k) | Some x \<Rightarrow> Inr x)"
  using field_mk_dict [of kvs k] by (simp add: getitem_def field_def mk_dict_def)

lemma process_textmessage_Inr:
  "snd (process_textmessage env p) = Inr r \<Longrightarrow>
   build_textmessage env p = Inr r \<and> validate_typed_dict env r TextMessageT = None"
  by (auto simp: process_textmessage_def Let_def split: sum.splits option.splits)

lemma process_nodeinfo_Inr:
  "snd (process_nodeinfo env p) = Inr r \<Longrightarrow>
   build_nodeinfo env p = Inr r \<and> validate_typed_dict env r NodeInfoT = None"
  by (auto simp: process_nodeinfo_def Let_def split: sum.splits option.splits)

lemma build_textmessage_Inr:
  assumes "build_textmessage env p = Inr r"
  shows "\<exists>from_num from_id to_num to_id decoded text metrics raw.
           int_item env p ''from'' = Inr from_num \<and> str_item env p ''fromId'' = Inr from_id \<and>
           int_item env p ''to'' = Inr to_num \<and> str_item env p ''toId'' = Inr to_id \<and>
           getitem p ''decoded'' = Inr decoded \<and> str_item env decoded ''text'' = Inr text \<and>
           inline_metrics env p = Inr metrics \<and> str_item env p ''raw'' = Inr raw \<and>
           r = mk_dict [(''type'', PStr ''text''), (''timestamp'', PStr (now_iso env)),
                        (''from_num'', from_num), (''from_id'', from_id),
                        (''to_num'', to_num), (''to_id'', to_id), (''text'', text),
                        (''metrics'', metrics), (''raw'', raw)]"
  using assms unfolding build_textmessage_def andThen_eq_Inr by blast

lemma build_nodeinfo_Inr:
  assumes "build_nodeinfo env p = Inr r"
  shows "\<exists>user_info from_num from_id user metrics raw.
           user_dict env p = Inr user_info \<and>
           int_item env p ''from'' = Inr from_num \<and> str_item env p ''fromId'' = Inr from_id \<and>
           build_user env user_info = Inr user \<and>
           inline_metrics env p = Inr metrics \<and> str_item env p ''raw'' = Inr raw \<and>
           r = mk_dict [(''type'', PStr ''nodeinfo''), (''timestamp'', PStr (now_iso env)),
                        (''from_num'', from_num), (''from_id'', from_id), (''user'', user),
                        (''metrics'', metrics), (''raw'', raw)]"
  using assms unfolding build_nodeinfo_def andThen_eq_Inr by blast

lemma inline_metrics_Inr:
  assumes "inline_metrics env p = Inr m"
  shows "\<exists>rx_time rx_snr rx_rssi hop_limit.
           int_item env p ''rxTime'' = Inr rx_time \<and>
           float_get env p ''rxSnr'' (PInt 0) = Inr rx_snr \<and>
           int_get env p ''rxRssi'' (PInt 0) = Inr rx_rssi \<and>
           int_get env p ''hopLimit'' (PInt 3) = Inr hop_limit \<and>
           m = mk_dict [(''rx_time'', rx_time), (''rx_snr'', rx_snr),
                        (''rx_rssi'', rx_rssi), (''hop_limit'', hop_limit)]"
  using assms unfolding inline_metrics_def andThen_eq_Inr by blast

lemma str_item_Inr:
  "str_item env p k = Inr v \<longleftrightarrow> (\<exists>x. getitem p k = Inr x \<and> v = PStr (py_str env x))"
  by (auto simp: str_item_def andThen_eq_Inr)

lemma py_str_PStr: "py_str env (PStr s) = s"
  by (simp add: py_str_def)

lemmas fixture_eval =
  process_textmessage_def build_textmessage_def process_nodeinfo_def build_nodeinfo_def
  user_dict_def build_user_def py_dict_def inline_metrics_def
  text_packet_def node_packet_def mk_dict_def getitem_PDict get_default_PDict
  int_item_def str_item_def int_get_def float_get_def py_int_def py_float_def py_str_def
  Let_def fixture_env_def spec_validate_def has_str_def has_int_def opt_int_def opt_float_def
  nested_def valid_metrics_def valid_user_def field_def fixture_text_record_def
  fixture_node_record_def fixture_metrics_def

lemma fixture_text_normalized:
  "snd (process_textmessage fixture_env (text_packet (PStr ''!01''))) =
     Inr (fixture_text_record ''!01'')"
  by (simp add: fixture_eval)

lemma fixture_node_normalized:
  "snd (process_nodeinfo fixture_env (node_packet [(''longName'', PStr ''Base'')])) =
     Inr fixture_node_record"
  by (simp add: fixture_eval)

section \<open>The defaulting law of \<^verbatim>\<open>_extract_metrics\<close>\<close>

text \<open>
  Claim C3. \<^verbatim>\<open>_extract_metrics\<close> on the packet \<^verbatim>\<open>{rxTime: 100}\<close> returns \<^verbatim>\<open>rx_time = 100\<close>,
  \<^verbatim>\<open>rx_snr = None\<close>, \<^verbatim>\<open>rx_rssi = None\<close> and \<^verbatim>\<open>hop_limit = 3\<close>. On any dict packet, a missing
  \<^verbatim>\<open>rxTime\<close> raises \<^verbatim>\<open>KeyError\<close>; with \<^verbatim>\<open>rxTime\<close> present the call returns whatever else is
  missing, \<^verbatim>\<open>rxSnr\<close> and \<^verbatim>\<open>rxRssi\<close> being \<^verbatim>\<open>None\<close> when absent and \<^verbatim>\<open>hopLimit\<close> being 3.
\<close>

theorem extract_metrics_defaulting:
  "extract_metrics (mk_dict [(''rxTime'', PInt 100)]) =
     Inr (mk_dict [(''rx_time'', PInt 100), (''rx_snr'', PNone), (''rx_rssi'', PNone),
                   (''hop_limit'', PInt 3)])
   \<and> (\<forall>d. map_of d (PStr ''rxTime'') = None \<longrightarrow>
          extract_metrics (PDict d) = Inl (KeyError ''rxTime''))
   \<and> (\<forall>d t. map_of d (PStr ''rxTime'') = Some t \<longrightarrow>
          extract_metrics (PDict d) =
            Inr (mk_dict
              [(''rx_time'', t),
               (''rx_snr'', case map_of d (PStr ''rxSnr'') of None \<Rightarrow> PNone | Some v \<Rightarrow> v),
               (''rx_rssi'', case map_of d (PStr ''rxRssi'') of None \<Rightarrow> PNone | Some v \<Rightarrow> v),
               (''hop_limit'',
                  case map_of d (PStr ''hopLimit'') of None \<Rightarrow> PInt 3 | Some v \<Rightarrow> v)]))"
  by (simp add: extract_metrics_def mk_dict_def getitem_PDict get_default_PDict)

theorem extract_metrics_defaulting_witness:
  "extract_metrics (PDict []) = Inl (KeyError ''rxTime'')
   \<and> extract_metrics (mk_dict [(''rxTime'', PInt 7), (''rxSnr'', PFloat (Finite 2)),
                                (''hopLimit'', PInt 5)]) =
       Inr (mk_dict [(''rx_time'', PInt 7), (''rx_snr'', PFloat (Finite 2)),
                     (''rx_rssi'', PNone), (''hop_limit'', PInt 5)])"
  using extract_metrics_defaulting [THEN conjunct2, THEN conjunct1, rule_format, of "[]"]
    extract_metrics_defaulting [THEN conjunct2, THEN conjunct2, rule_format,
      of "[(PStr ''rxTime'', PInt 7), (PStr ''rxSnr'', PFloat (Finite 2)),
           (PStr ''hopLimit'', PInt 5)]" "PInt 7"]
  by (simp add: mk_dict_def)

section \<open>Unrecognized discriminators\<close>

text \<open>
  Claim C6. When \<^verbatim>\<open>packet['decoded']['portnum']\<close> is read and is neither \<^verbatim>\<open>'NODEINFO_APP'\<close>
  nor \<^verbatim>\<open>'TEXT_MESSAGE_APP'\<close>, \<^verbatim>\<open>process_packet\<close> returns normally after a debug line and a
  warning, and calls neither \<^verbatim>\<open>store_node\<close> nor \<^verbatim>\<open>store_message\<close>.
\<close>

theorem unknown_portnum_skipped:
  assumes "andThen (getitem packet ''decoded'') (\<lambda>decoded. getitem decoded ''portnum'') = Inr portnum"
    and "portnum \<noteq> PStr ''NODEINFO_APP''"
    and "portnum \<noteq> PStr ''TEXT_MESSAGE_APP''"
  shows "process_packet env packet packet_type =
           ([Log Debug (MsgProcessing packet_type), Log Warning (MsgUnknownType portnum)], Inr ())
         \<and> filter is_store (fst (process_packet env packet packet_type)) = []"
  using assms by (simp add: process_packet_def process_packet_body_def)

theorem unknown_portnum_skipped_witness:
  "andThen (getitem waypoint_packet ''decoded'') (\<lambda>decoded. getitem decoded ''portnum'') =
     Inr (PStr ''WAYPOINT_APP'')
   \<and> process_packet fixture_env waypoint_packet ''position'' =
       ([Log Debug (MsgProcessing ''position''),
         Log Warning (MsgUnknownType (PStr ''WAYPOINT_APP''))], Inr ())
   \<and> filter is_store (fst (process_packet fixture_env waypoint_packet ''position'')) = []"
proof -
  have h: "andThen (getitem waypoint_packet ''decoded'') (\<lambda>decoded. getitem decoded ''portnum'') =
     Inr (PStr ''WAYPOINT_APP'')"
    by (simp add: waypoint_packet_def mk_dict_def getitem_PDict)
  show ?thesis
    using h unknown_portnum_skipped [OF h, of fixture_env "''position''"] by simp
qed

section \<open>Malformed JSON at the display formatters\<close>

text \<open>
  Claim C9, as amended. On a string for which \<^verbatim>\<open>json.loads\<close> raises \<^verbatim>\<open>JSONDecodeError\<close>, both
  \<^verbatim>\<open>format_message_for_display\<close> and \<^verbatim>\<open>format_node_for_display\<close> log the error and return
  \<^verbatim>\<open>None\<close>. Any other exception of \<^verbatim>\<open>json.loads\<close> leaves the formatter unlogged, and so does
  the \<^verbatim>\<open>TypeError\<close> of indexing when \<^verbatim>\<open>json.loads\<close> returns a value that is not a dict.
\<close>

theorem malformed_json_gives_none:
  "(\<forall>e. json_loads env s = Inl e \<and> is_JSONDecodeError e \<longrightarrow>
        format_message_for_display env s = ([Log Error (MsgDecodeMessage e)], Inr PNone) \<and>
        format_node_for_display env s = ([Log Error (MsgDecodeNode e)], Inr PNone))
   \<and> (\<forall>e. json_loads env s = Inl e \<and> \<not> is_JSONDecodeError e \<longrightarrow>
        format_message_for_display env s = ([], Inl e) \<and>
        format_node_for_display env s = ([], Inl e))
   \<and> (\<forall>v. json_loads env s = Inr v \<and> (\<forall>d. v \<noteq> PDict d) \<longrightarrow>
        format_message_for_display env s = ([], Inl TypeError) \<and>
        format_node_for_display env s = ([], Inl TypeError))"
proof (intro conjI allI impI)
  fix e assume "json_loads env s = Inl e \<and> is_JSONDecodeError e"
  then show "format_message_for_display env s = ([Log Error (MsgDecodeMessage e)], Inr PNone)"
    and "format_node_for_display env s = ([Log Error (MsgDecodeNode e)], Inr PNone)"
    by (simp_all add: format_message_for_display_def format_node_for_display_def)
next
  fix e assume "json_loads env s = Inl e \<and> \<not> is_JSONDecodeError e"
  then show "format_message_for_display env s = ([], Inl e)"
    and "format_node_for_display env s = ([], Inl e)"
    by (simp_all add: format_message_for_display_def format_node_for_display_def)
next
  fix v assume a: "json_loads env s = Inr v \<and> (\<forall>d. v \<noteq> PDict d)"
  then have "getitem v ''timestamp'' = Inl TypeError"
    by (cases v) (simp_all add: getitem_def)
  with a show "format_message_for_display env s = ([], Inl TypeError)"
    and "format_node_for_display env s = ([], Inl TypeError)"
    by (simp_all add: format_message_for_display_def format_node_for_display_def
        message_projection_def node_projection_def)
qed

lemma fixture_loads_garbage: "json_loads fixture_env ''{not json'' = Inl JSONDecodeError"
  by (simp add: fixture_env_def fixture_loads_def fixture_records_def fixture_text_record_def
      fixture_node_record_def fixture_metrics_def mk_dict_def)

lemma fixture_loads_nan: "json_loads fixture_env ''NaN'' = Inr (PFloat NaN)"
  by (simp add: fixture_env_def fixture_loads_def fixture_records_def fixture_text_record_def
      fixture_node_record_def fixture_metrics_def mk_dict_def)

theorem malformed_json_gives_none_witness:
  "json_loads fixture_env ''{not json'' = Inl JSONDecodeError
   \<and> format_message_for_display fixture_env ''{not json'' =
       ([Log Error (MsgDecodeMessage JSONDecodeError)], Inr PNone)
   \<and> format_node_for_display fixture_env ''{not json'' =
       ([Log Error (MsgDecodeNode JSONDecodeError)], Inr PNone)
   \<and> json_loads (fixture_env \<lparr> json_loads := (\<lambda>s. Inl (OtherError ''RecursionError'')) \<rparr>)
        ''[[[['' = Inl (OtherError ''RecursionError'')
   \<and> format_message_for_display
        (fixture_env \<lparr> json_loads := (\<lambda>s. Inl (OtherError ''RecursionError'')) \<rparr>) ''[[[['' =
       ([], Inl (OtherError ''RecursionError''))
   \<and> json_loads fixture_env ''NaN'' = Inr (PFloat NaN)
   \<and> format_node_for_display fixture_env ''NaN'' = ([], Inl TypeError)"
proof -
  have a: "json_loads fixture_env ''{not json'' = Inl JSONDecodeError \<and>
      is_JSONDecodeError JSONDecodeError"
    using fixture_loads_garbage by simp
  have b: "json_loads (fixture_env \<lparr> json_loads := (\<lambda>s. Inl (OtherError ''RecursionError'')) \<rparr>)
        ''[[[['' = Inl (OtherError ''RecursionError'') \<and>
      \<not> is_JSONDecodeError (OtherError ''RecursionError'')"
    by simp
  have c: "json_loads fixture_env ''NaN'' = Inr (PFloat NaN) \<and> (\<forall>d. PFloat NaN \<noteq> PDict d)"
    using fixture_loads_nan by simp
  from malformed_json_gives_none [of fixture_env "''{not json''",
      THEN conjunct1, rule_format, OF a]
    malformed_json_gives_none
      [of "fixture_env \<lparr> json_loads := (\<lambda>s. Inl (OtherError ''RecursionError'')) \<rparr>" "''[[[[''",
       THEN conjunct2, THEN conjunct1, rule_format, OF b]
    malformed_json_gives_none [of fixture_env "''NaN''",
      THEN conjunct2, THEN conjunct2, rule_format, OF c]
    a b c
  show ?thesis by simp
qed

text \<open>
  Claim C9, as stated, fails: the string \<^verbatim>\<open>NaN\<close> is not well-formed JSON, yet \<^verbatim>\<open>json.loads\<close>
  accepts it and returns the float \<^verbatim>\<open>nan\<close>; indexing the float raises \<^verbatim>\<open>TypeError\<close>, which
  neither formatter handles, so both raise instead of returning \<^verbatim>\<open>None\<close>.
\<close>

theorem malformed_json_counterexample:
  "\<not> json_value_begins ''NaN''
   \<and> json_loads fixture_env ''NaN'' = Inr (PFloat NaN)
   \<and> format_message_for_display fixture_env ''NaN'' = ([], Inl TypeError)
   \<and> format_node_for_display fixture_env ''NaN'' = ([], Inl TypeError)"
  using fixture_loads_nan
  by (simp add: json_value_begins_def format_message_for_display_def format_node_for_display_def
      message_projection_def node_projection_def getitem_def)

section \<open>Display fields missing from well-formed JSON\<close>

lemma format_message_not_decode_error:
  "snd (format_message_for_display env s) = Inl e \<Longrightarrow> \<not> is_JSONDecodeError e"
  by (auto simp: format_message_for_display_def split: sum.splits if_splits)

lemma format_node_not_decode_error:
  "snd (format_node_for_display env s) = Inl e \<Longrightarrow> \<not> is_JSONDecodeError e"
  by (auto simp: format_node_for_display_def split: sum.splits if_splits)

lemma format_each_raises:
  assumes "s \<in> set msgs" and "\<exists>e. snd (fmt s) = Inl e"
    and "\<And>m e. snd (fmt m) = Inl e \<Longrightarrow> P e"
  shows "\<exists>e. snd (format_each fmt msgs acc) = Inl e \<and> P e"
  using assms(1)
proof (induction msgs arbitrary: acc)
  case Nil
  then show ?case by simp
next
  case (Cons m rest)
  show ?case
  proof (cases "fmt m")
    case (Pair t res)
    show ?thesis
    proof (cases res)
      case (Inl e)
      with Pair assms(3) [of m e] show ?thesis by simp
    next
      case (Inr v)
      with Pair assms(2) Cons.prems have "s \<in> set rest" by auto
      from Cons.IH [OF this, of "if py_truthy v then acc @ [v] else acc"]
      obtain e where "snd (format_each fmt rest (if py_truthy v then acc @ [v] else acc)) = Inl e"
        and "P e" by blast
      with Pair Inr show ?thesis by (auto split: prod.splits)
    qed
  qed
qed

lemma format_each_first_failure:
  assumes "\<forall>m\<in>set pre. \<exists>v. snd (fmt m) = Inr v" and "snd (fmt s) = Inl e"
  shows "snd (format_each fmt (pre @ s # post) acc) = Inl e"
  using assms(1)
proof (induction pre arbitrary: acc)
  case Nil
  from assms(2) show ?case by (cases "fmt s") simp
next
  case (Cons m rest)
  then obtain v where v: "snd (fmt m) = Inr v" by auto
  from Cons have "snd (format_each fmt (rest @ s # post)
      (if py_truthy v then acc @ [v] else acc)) = Inl e" by simp
  with v show ?case by (cases "fmt m") (auto split: prod.splits)
qed

lemma message_projection_missing:
  assumes "k \<in> {''timestamp'', ''from_id'', ''to_id'', ''text''}" and "map_of d (PStr k) = None"
  shows "\<exists>k'. message_projection (PDict d) = Inl (KeyError k')"
  using assms
  by (auto simp: message_projection_def getitem_PDict split: option.splits)

lemma node_projection_missing:
  assumes "(k \<in> {''timestamp'', ''from_id'', ''user''} \<and> map_of d (PStr k) = None)
           \<or> (\<exists>u. map_of d (PStr ''user'') = Some (PDict u) \<and> map_of u (PStr ''long_name'') = None)"
  shows "\<exists>k'. node_projection (PDict d) = Inl (KeyError k')"
  using assms
  by (auto simp: node_projection_def getitem_PDict split: option.splits)

text \<open>
  Claim C10. The formatters handle \<^verbatim>\<open>json.JSONDecodeError\<close> only. When the text parses to a
  JSON object that lacks \<^verbatim>\<open>timestamp\<close>, \<^verbatim>\<open>from_id\<close>, \<^verbatim>\<open>to_id\<close> or \<^verbatim>\<open>text\<close>,
  \<^verbatim>\<open>format_message_for_display\<close> raises \<^verbatim>\<open>KeyError\<close> rather than returning \<^verbatim>\<open>None\<close>, and
  \<^verbatim>\<open>get_formatted_messages\<close> raises as soon as the store returns a list that holds such a
  text: that \<^verbatim>\<open>KeyError\<close>, when the texts before it are formatted without an exception. The
  same holds for \<^verbatim>\<open>format_node_for_display\<close> and \<^verbatim>\<open>get_formatted_nodes\<close> when
  \<^verbatim>\<open>timestamp\<close>, \<^verbatim>\<open>from_id\<close>, \<^verbatim>\<open>user\<close> or \<^verbatim>\<open>user.long_name\<close> is missing.
\<close>

theorem missing_display_field_propagates:
  assumes "json_loads env s = Inr (PDict d)"
  shows "(k \<in> {''timestamp'', ''from_id'', ''to_id'', ''text''} \<and> map_of d (PStr k) = None \<longrightarrow>
            (\<exists>k'. format_message_for_display env s = ([], Inl (KeyError k'))) \<and>
            (\<forall>limit msgs. load_messages env limit = Inr msgs \<and> s \<in> set msgs \<longrightarrow>
               (\<exists>e. snd (get_formatted_messages env limit) = Inl e \<and> \<not> is_JSONDecodeError e)) \<and>
            (\<forall>limit pre post. load_messages env limit = Inr (pre @ s # post) \<and>
               (\<forall>m\<in>set pre. \<exists>v. snd (format_message_for_display env m) = Inr v) \<longrightarrow>
               (\<exists>k'. snd (get_formatted_messages env limit) = Inl (KeyError k'))))
       \<and> ((k \<in> {''timestamp'', ''from_id'', ''user''} \<and> map_of d (PStr k) = None)
            \<or> (\<exists>u. map_of d (PStr ''user'') = Some (PDict u) \<and>
                     map_of u (PStr ''long_name'') = None) \<longrightarrow>
            (\<exists>k'. format_node_for_display env s = ([], Inl (KeyError k'))) \<and>
            (\<forall>limit nodes. load_nodes env limit = Inr nodes \<and> s \<in> set nodes \<longrightarrow>
               (\<exists>e. snd (get_formatted_nodes env limit) = Inl e \<and> \<not> is_JSONDecodeError e)) \<and>
            (\<forall>limit pre post. load_nodes env limit = Inr (pre @ s # post) \<and>
               (\<forall>m\<in>set pre. \<exists>v. snd (format_node_for_display env m) = Inr v) \<longrightarrow>
               (\<exists>k'. snd (get_formatted_nodes env limit) = Inl (KeyError k'))))"
proof (intro conjI impI)
  assume a: "k \<in> {''timestamp'', ''from_id'', ''to_id'', ''text''} \<and> map_of d (PStr k) = None"
  then obtain k' where k': "message_projection (PDict d) = Inl (KeyError k')"
    using message_projection_missing by blast
  with assms show f: "\<exists>k'. format_message_for_display env s = ([], Inl (KeyError k'))"
    by (simp add: format_message_for_display_def)
  show "\<forall>limit msgs. load_messages env limit = Inr msgs \<and> s \<in> set msgs \<longrightarrow>
          (\<exists>e. snd (get_formatted_messages env limit) = Inl e \<and> \<not> is_JSONDecodeError e)"
  proof (intro allI impI)
    fix limit msgs
    assume l: "load_messages env limit = Inr msgs \<and> s \<in> set msgs"
    from f have "\<exists>e. snd (format_message_for_display env s) = Inl e" by auto
    with l format_each_raises [of s msgs "format_message_for_display env"
        "\<lambda>e. \<not> is_JSONDecodeError e" "[]"] format_message_not_decode_error
    obtain e where "snd (format_each (format_message_for_display env) msgs []) = Inl e"
      and "\<not> is_JSONDecodeError e" by blast
    with l show "\<exists>e. snd (get_formatted_messages env limit) = Inl e \<and> \<not> is_JSONDecodeError e"
      by (auto simp: get_formatted_messages_def split: prod.splits)
  qed
  show "\<forall>limit pre post. load_messages env limit = Inr (pre @ s # post) \<and>
          (\<forall>m\<in>set pre. \<exists>v. snd (format_message_for_display env m) = Inr v) \<longrightarrow>
          (\<exists>k'. snd (get_formatted_messages env limit) = Inl (KeyError k'))"
  proof (intro allI impI)
    fix limit pre post
    assume l: "load_messages env limit = Inr (pre @ s # post) \<and>
          (\<forall>m\<in>set pre. \<exists>v. snd (format_message_for_display env m) = Inr v)"
    from f obtain k' where "snd (format_message_for_display env s) = Inl (KeyError k')" by auto
    with l have "snd (format_each (format_message_for_display env) (pre @ s # post) []) =
        Inl (KeyError k')"
      by (simp add: format_each_first_failure)
    with l show "\<exists>k'. snd (get_formatted_messages env limit) = Inl (KeyError k')"
      by (auto simp: get_formatted_messages_def split: prod.splits)
  qed
next
  assume a: "(k \<in> {''timestamp'', ''from_id'', ''user''} \<and> map_of d (PStr k) = None)
            \<or> (\<exists>u. map_of d (PStr ''user'') = Some (PDict u) \<and>
                     map_of u (PStr ''long_name'') = None)"
  then obtain k' where k': "node_projection (PDict d) = Inl (KeyError k')"
    using node_projection_missing by blast
  with assms show f: "\<exists>k'. format_node_for_display env s = ([], Inl (KeyError k'))"
    by (simp add: format_node_for_display_def)
  show "\<forall>limit nodes. load_nodes env limit = Inr nodes \<and> s \<in> set nodes \<longrightarrow>
          (\<exists>e. snd (get_formatted_nodes env limit) = Inl e \<and> \<not> is_JSONDecodeError e)"
  proof (intro allI impI)
    fix limit nodes
    assume l: "load_nodes env limit = Inr nodes \<and> s \<in> set nodes"
    from f have "\<exists>e. snd (format_node_for_display env s) = Inl e" by auto
    with l format_each_raises [of s nodes "format_node_for_display env"
        "\<lambda>e. \<not> is_JSONDecodeError e" "[]"] format_node_not_decode_error
    obtain e where "snd (format_each (format_node_for_display env) nodes []) = Inl e"
      and "\<not> is_JSONDecodeError e" by blast
    with l show "\<exists>e. snd (get_formatted_nodes env limit) = Inl e \<and> \<not> is_JSONDecodeError e"
      by (auto simp: get_formatted_nodes_def split: prod.splits)
  qed
  show "\<forall>limit pre post. load_nodes env limit = Inr (pre @ s # post) \<and>
          (\<forall>m\<in>set pre. \<exists>v. snd (format_node_for_display env m) = Inr v) \<longrightarrow>
          (\<exists>k'. snd (get_formatted_nodes env limit) = Inl (KeyError k'))"
  proof (intro allI impI)
    fix limit pre post
    assume l: "load_nodes env limit = Inr (pre @ s # post) \<and>
          (\<forall>m\<in>set pre. \<exists>v. snd (format_node_for_display env m) = Inr v)"
    from f obtain k' where "snd (format_node_for_display env s) = Inl (KeyError k')" by auto
    with l have "snd (format_each (format_node_for_display env) (pre @ s # post) []) =
        Inl (KeyError k')"
      by (simp add: format_each_first_failure)
    with l show "\<exists>k'. snd (get_formatted_nodes env limit) = Inl (KeyError k')"
      by (auto simp: get_formatted_nodes_def split: prod.splits)
  qed
qed

lemma fixture_loads_empty_object: "json_loads fixture_env ''{}'' = Inr (PDict [])"
  by (simp add: fixture_env_def fixture_loads_def fixture_records_def fixture_text_record_def
      fixture_node_record_def fixture_metrics_def mk_dict_def)

theorem missing_display_field_propagates_witness:
  "json_loads fixture_env ''{}'' = Inr (PDict [])
   \<and> (\<exists>k'. format_message_for_display fixture_env ''{}'' = ([], Inl (KeyError k')))
   \<and> (\<exists>k'. snd (get_formatted_messages fixture_env (- 1)) = Inl (KeyError k'))
   \<and> (\<exists>k'. format_node_for_display fixture_env ''{}'' = ([], Inl (KeyError k')))
   \<and> (\<exists>k'. snd (get_formatted_nodes fixture_env (- 1)) = Inl (KeyError k'))"
proof -
  note t = missing_display_field_propagates [OF fixture_loads_empty_object, of "''timestamp''"]
  have m: "load_messages fixture_env (- 1) = Inr ([] @ ''{}'' # [])"
    and n: "load_nodes fixture_env (- 1) = Inr ([] @ ''{}'' # [])"
    by (simp_all add: fixture_env_def)
  have k: "''timestamp'' \<in> {''timestamp'', ''from_id'', ''to_id'', ''text''} \<and>
      map_of [] (PStr ''timestamp'') = None"
    "(''timestamp'' \<in> {''timestamp'', ''from_id'', ''user''} \<and>
      map_of [] (PStr ''timestamp'') = None) \<or>
     (\<exists>u. map_of [] (PStr ''user'') = Some (PDict u) \<and> map_of u (PStr ''long_name'') = None)"
    by simp_all
  from t [THEN conjunct1, rule_format, OF k(1)]
  have a: "\<exists>k'. format_message_for_display fixture_env ''{}'' = ([], Inl (KeyError k'))"
    and b: "\<forall>limit pre post. load_messages fixture_env limit = Inr (pre @ ''{}'' # post) \<and>
          (\<forall>m\<in>set pre. \<exists>v. snd (format_message_for_display fixture_env m) = Inr v) \<longrightarrow>
          (\<exists>k'. snd (get_formatted_messages fixture_env limit) = Inl (KeyError k'))"
    by simp_all
  from t [THEN conjunct2, rule_format, OF k(2)]
  have c: "\<exists>k'. format_node_for_display fixture_env ''{}'' = ([], Inl (KeyError k'))"
    and d: "\<forall>limit pre post. load_nodes fixture_env limit = Inr (pre @ ''{}'' # post) \<and>
          (\<forall>m\<in>set pre. \<exists>v. snd (format_node_for_display fixture_env m) = Inr v) \<longrightarrow>
          (\<exists>k'. snd (get_formatted_nodes fixture_env limit) = Inl (KeyError k'))"
    by simp_all
  from b [rule_format, of "- 1" "[]" "[]"] m
  have e: "\<exists>k'. snd (get_formatted_messages fixture_env (- 1)) = Inl (KeyError k')" by simp
  from d [rule_format, of "- 1" "[]" "[]"] n
  have f: "\<exists>k'. snd (get_formatted_nodes fixture_env (- 1)) = Inl (KeyError k')" by simp
  from fixture_loads_empty_object a e c f show ?thesis by (intro conjI)
qed

section \<open>A node announcement without \<^verbatim>\<open>longName\<close>\<close>

lemma andThen_always_Inl: "(\<And>x. \<exists>e. f x = Inl e) \<Longrightarrow> \<exists>e. andThen m f = Inl e"
  by (cases m) simp_all

lemma str_item_missing:
  assumes "field u k = None"
  shows "\<exists>e. str_item env u k = Inl e"
  using assms by (cases u) (auto simp: str_item_def getitem_def field_def)

lemma build_user_missing_longName:
  assumes "field u ''longName'' = None"
  shows "\<exists>e. build_user env u = Inl e"
proof -
  from str_item_missing [OF assms] obtain e where "str_item env u ''longName'' = Inl e" by blast
  then show ?thesis
    unfolding build_user_def by - (rule andThen_always_Inl, simp)
qed

lemma build_nodeinfo_missing_longName:
  assumes "\<forall>u. user_dict env packet = Inr u \<longrightarrow> field u ''longName'' = None"
  shows "\<exists>e. build_nodeinfo env packet = Inl e"
proof (cases "user_dict env packet")
  case (Inl e)
  then show ?thesis by (simp add: build_nodeinfo_def)
next
  case (Inr u)
  with assms have "field u ''longName'' = None" by simp
  from build_user_missing_longName [OF this] obtain e where "build_user env u = Inl e" by blast
  with Inr show ?thesis
    apply (simp add: build_nodeinfo_def)
    apply (rule andThen_always_Inl)+
    apply simp
    done
qed

lemma process_nodeinfo_build_fails:
  assumes "build_nodeinfo env packet = Inl e"
  shows "snd (process_nodeinfo env packet) = Inl e"
    and "filter is_store (fst (process_nodeinfo env packet)) = []"
  using assms by (simp_all add: process_nodeinfo_def Let_def)

text \<open>
  Claim C5. When the dict that \<^verbatim>\<open>dict(packet['decoded']['user'])\<close> yields has no key
  \<^verbatim>\<open>longName\<close> (or no such dict can be read at all), \<^verbatim>\<open>_process_nodeinfo\<close> raises; and when
  the discriminator of such a packet is \<^verbatim>\<open>NODEINFO_APP\<close>, \<^verbatim>\<open>process_packet\<close> calls neither
  \<^verbatim>\<open>store_node\<close> nor \<^verbatim>\<open>store_message\<close>.
\<close>

theorem missing_longName_not_stored:
  assumes "\<forall>u. user_dict env packet = Inr u \<longrightarrow> field u ''longName'' = None"
  shows "(\<exists>e. snd (process_nodeinfo env packet) = Inl e)
         \<and> (andThen (getitem packet ''decoded'') (\<lambda>decoded. getitem decoded ''portnum'') =
              Inr (PStr ''NODEINFO_APP'') \<longrightarrow>
            filter is_store (fst (process_packet env packet packet_type)) = [])"
proof -
  from build_nodeinfo_missing_longName [OF assms]
  obtain e where e: "build_nodeinfo env packet = Inl e" by blast
  note p = process_nodeinfo_build_fails [OF e]
  from p(1) have "\<exists>e. snd (process_nodeinfo env packet) = Inl e" by blast
  moreover have "filter is_store (fst (process_packet env packet packet_type)) = []"
    if "andThen (getitem packet ''decoded'') (\<lambda>decoded. getitem decoded ''portnum'') =
          Inr (PStr ''NODEINFO_APP'')"
    using that p
    by (cases "process_nodeinfo env packet")
      (simp add: process_packet_def process_packet_body_def node_branch_def)
  ultimately show ?thesis by blast
qed

lemma node_packet_no_longName:
  "\<forall>u. user_dict fixture_env (node_packet []) = Inr u \<longrightarrow> field u ''longName'' = None"
  by (simp add: user_dict_def node_packet_def mk_dict_def getitem_PDict py_dict_def field_def)

theorem missing_longName_not_stored_witness:
  "user_dict fixture_env (node_packet []) =
     Inr (mk_dict [(''id'', PStr ''!01''), (''shortName'', PStr ''B''), (''macaddr'', PStr ''mac''),
                   (''hwModel'', PStr ''TBEAM''), (''raw'', PObj ''u'')])
   \<and> andThen (getitem (node_packet []) ''decoded'') (\<lambda>decoded. getitem decoded ''portnum'') =
       Inr (PStr ''NODEINFO_APP'')
   \<and> (\<exists>e. snd (process_nodeinfo fixture_env (node_packet [])) = Inl e)
   \<and> filter is_store (fst (process_packet fixture_env (node_packet []) ''node'')) = []"
proof -
  have u: "user_dict fixture_env (node_packet []) =
     Inr (mk_dict [(''id'', PStr ''!01''), (''shortName'', PStr ''B''), (''macaddr'', PStr ''mac''),
                   (''hwModel'', PStr ''TBEAM''), (''raw'', PObj ''u'')])"
    by (simp add: user_dict_def node_packet_def mk_dict_def getitem_PDict py_dict_def)
  have h: "andThen (getitem (node_packet []) ''decoded'') (\<lambda>decoded. getitem decoded ''portnum'') =
       Inr (PStr ''NODEINFO_APP'')"
    by (simp add: node_packet_def mk_dict_def getitem_PDict)
  from missing_longName_not_stored [OF node_packet_no_longName, of "''node''"] h u
  show ?thesis by blast
qed

section \<open>The failure policy of \<^verbatim>\<open>process_packet\<close>\<close>

lemma safe_Inr [simp]: "safe (Inr x)"
  by (simp add: safe_def)

lemma safe_andThen: "safe m \<Longrightarrow> (\<And>x. safe (f x)) \<Longrightarrow> safe (andThen m f)"
  by (cases m) (simp_all add: safe_def)

lemma safe_getitem: "safe (getitem v k)"
  by (cases v) (auto simp: safe_def getitem_def split: option.splits)

lemma safe_get_default: "safe (get_default v k dflt)"
  by (cases v) (auto simp: safe_def get_default_def split: option.splits)

lemma safe_py_int: "safe (py_int env v)"
  by (cases v) (auto simp: safe_def py_int_def split: option.splits pyfloat.splits)

lemma safe_py_float: "safe (py_float env v)"
  by (cases v) (auto simp: safe_def py_float_def split: option.splits)

lemma safe_items:
  "safe (int_item env v k)" "safe (str_item env v k)" "safe (float_item env v k)"
  "safe (int_get env v k dflt)" "safe (float_get env v k dflt)"
  unfolding int_item_def str_item_def float_item_def int_get_def float_get_def
  by (intro safe_andThen safe_getitem safe_get_default safe_py_int safe_py_float safe_Inr)+

lemma safe_inline_metrics: "safe (inline_metrics env packet)"
  unfolding inline_metrics_def by (intro safe_andThen safe_items safe_Inr)

lemma safe_build_user: "safe (build_user env u)"
  unfolding build_user_def by (intro safe_andThen safe_items safe_Inr)

lemma safe_build_textmessage: "safe (build_textmessage env packet)"
  unfolding build_textmessage_def
  by (intro safe_andThen safe_getitem safe_inline_metrics safe_items safe_Inr)

lemma safe_node_line: "safe (node_line r)"
  unfolding node_line_def by (intro safe_andThen safe_getitem safe_Inr)

lemma safe_text_line: "safe (text_line r)"
  unfolding text_line_def by (intro safe_andThen safe_getitem safe_Inr)

lemma safe_read_portnum:
  "safe (andThen (getitem packet ''decoded'') (\<lambda>decoded. getitem decoded ''portnum''))"
  by (intro safe_andThen safe_getitem)

lemma safeD: "safe m \<Longrightarrow> m = Inl e \<Longrightarrow> is_Exception e"
  by (simp add: safe_def)

text \<open>Of the steps of \<^verbatim>\<open>_process_nodeinfo\<close>, only \<^verbatim>\<open>dict\<close> can raise outside \<^verbatim>\<open>Exception\<close>.\<close>

lemma build_nodeinfo_outside_Exception:
  assumes "build_nodeinfo env packet = Inl e" and "\<not> is_Exception e"
  shows "\<exists>decoded user. getitem packet ''decoded'' = Inr decoded \<and>
           getitem decoded ''user'' = Inr user \<and> py_dict env user = Inl e"
proof (cases "user_dict env packet")
  case (Inl e')
  with assms(1) have e': "e' = e" by (simp add: build_nodeinfo_def)
  show ?thesis
  proof (cases "getitem packet ''decoded''")
    case (Inl e1)
    with \<open>user_dict env packet = Inl e'\<close> e' have "getitem packet ''decoded'' = Inl e"
      by (simp add: user_dict_def)
    with assms(2) safeD [OF safe_getitem] show ?thesis by blast
  next
    case (Inr decoded)
    note d = this
    show ?thesis
    proof (cases "getitem decoded ''user''")
      case (Inl e2)
      with d \<open>user_dict env packet = Inl e'\<close> e' have "getitem decoded ''user'' = Inl e"
        by (simp add: user_dict_def)
      with assms(2) safeD [OF safe_getitem] show ?thesis by blast
    next
      case (Inr user)
      with d \<open>user_dict env packet = Inl e'\<close> e' have "py_dict env user = Inl e"
        by (simp add: user_dict_def)
      with d Inr show ?thesis by blast
    qed
  qed
next
  case (Inr user_info)
  have "safe (andThen (int_item env packet ''from'') (\<lambda>from_num.
     andThen (str_item env packet ''fromId'') (\<lambda>from_id.
     andThen (build_user env user_info) (\<lambda>user.
     andThen (inline_metrics env packet) (\<lambda>metrics.
     andThen (str_item env packet ''raw'') (\<lambda>raw.
       Inr (mk_dict [(''type'', PStr ''nodeinfo''), (''timestamp'', PStr (now_iso env)),
                     (''from_num'', from_num), (''from_id'', from_id), (''user'', user),
                     (''metrics'', metrics), (''raw'', raw)])))))))"
    by (intro safe_andThen safe_build_user safe_inline_metrics safe_items safe_Inr)
  moreover from Inr assms(1) have "andThen (int_item env packet ''from'') (\<lambda>from_num.
     andThen (str_item env packet ''fromId'') (\<lambda>from_id.
     andThen (build_user env user_info) (\<lambda>user.
     andThen (inline_metrics env packet) (\<lambda>metrics.
     andThen (str_item env packet ''raw'') (\<lambda>raw.
       Inr (mk_dict [(''type'', PStr ''nodeinfo''), (''timestamp'', PStr (now_iso env)),
                     (''from_num'', from_num), (''from_id'', from_id), (''user'', user),
                     (''metrics'', metrics), (''raw'', raw)])))))) = Inl e"
    by (simp add: build_nodeinfo_def)
  ultimately have "is_Exception e" by (rule safeD)
  with assms(2) show ?thesis by simp
qed

lemma py_dict_raises_build:
  assumes "getitem packet ''decoded'' = Inr decoded" and "getitem decoded ''user'' = Inr user"
    and "py_dict env user = Inl e"
  shows "build_nodeinfo env packet = Inl e"
  using assms by (simp add: build_nodeinfo_def user_dict_def)

text \<open>What the two branches do with an exception raised by a collaborator, and with no other.\<close>

lemma node_raised_reaches_branch:
  assumes "node_raised env packet e"
  shows "snd (node_branch env packet) = Inl e"
  using assms unfolding node_raised_def
proof (elim disjE exE conjE)
  fix decoded user
  assume "getitem packet ''decoded'' = Inr decoded" "getitem decoded ''user'' = Inr user"
    "py_dict env user = Inl e"
  then have "build_nodeinfo env packet = Inl e" by (rule py_dict_raises_build)
  then show ?thesis by (simp add: node_branch_def process_nodeinfo_def Let_def)
next
  fix r assume "build_nodeinfo env packet = Inr r" "validate_typed_dict env r NodeInfoT = Some e"
  then show ?thesis by (simp add: node_branch_def process_nodeinfo_def Let_def)
next
  fix r assume "build_nodeinfo env packet = Inr r" "validate_typed_dict env r NodeInfoT = None"
    "json_dumps env r = Inl e"
  then show ?thesis by (simp add: node_branch_def process_nodeinfo_def Let_def)
next
  fix r js assume "build_nodeinfo env packet = Inr r" "validate_typed_dict env r NodeInfoT = None"
    "json_dumps env r = Inr js" "store_node env js = Some e"
  then show ?thesis by (simp add: node_branch_def process_nodeinfo_def Let_def)
qed

lemma text_raised_reaches_branch:
  assumes "text_raised env packet e"
  shows "snd (text_branch env packet) = Inl e"
  using assms unfolding text_raised_def
proof (elim disjE exE conjE)
  fix r assume "build_textmessage env packet = Inr r"
    "validate_typed_dict env r TextMessageT = Some e"
  then show ?thesis by (simp add: text_branch_def process_textmessage_def Let_def)
next
  fix r assume "build_textmessage env packet = Inr r"
    "validate_typed_dict env r TextMessageT = None" "json_dumps env r = Inl e"
  then show ?thesis by (simp add: text_branch_def process_textmessage_def Let_def)
next
  fix r js assume "build_textmessage env packet = Inr r"
    "validate_typed_dict env r TextMessageT = None"
    "json_dumps env r = Inr js" "store_message env js = Some e"
  then show ?thesis by (simp add: text_branch_def process_textmessage_def Let_def)
qed

lemma node_branch_outside_Exception:
  assumes "snd (node_branch env packet) = Inl e" and "\<not> is_Exception e"
  shows "node_raised env packet e"
proof (cases "build_nodeinfo env packet")
  case (Inl e')
  with assms(1) have "e' = e" by (simp add: node_branch_def process_nodeinfo_def Let_def)
  with Inl build_nodeinfo_outside_Exception [OF _ assms(2)] show ?thesis
    by (simp add: node_raised_def)
next
  case (Inr r)
  note r = this
  show ?thesis
  proof (cases "validate_typed_dict env r NodeInfoT")
    case (Some e')
    with r assms(1) have "e' = e" by (simp add: node_branch_def process_nodeinfo_def Let_def)
    with r Some show ?thesis by (auto simp: node_raised_def)
  next
    case None
    note v = this
    show ?thesis
    proof (cases "json_dumps env r")
      case (Inl e')
      with r v assms(1) have "e' = e" by (simp add: node_branch_def process_nodeinfo_def Let_def)
      with r v Inl show ?thesis by (auto simp: node_raised_def)
    next
      case (Inr js)
      note js = this
      show ?thesis
      proof (cases "store_node env js")
        case (Some e')
        with r v js assms(1) have "e' = e"
          by (simp add: node_branch_def process_nodeinfo_def Let_def)
        with r v js Some show ?thesis by (auto simp: node_raised_def)
      next
        case None
        with r v js assms(1)
        have "getitem r ''from_id'' = Inl e \<or> node_line r = Inl e"
          by (auto simp: node_branch_def process_nodeinfo_def Let_def split: sum.splits)
        with safeD [OF safe_getitem] safeD [OF safe_node_line] have "is_Exception e" by blast
        with assms(2) show ?thesis by simp
      qed
    qed
  qed
qed

lemma text_branch_outside_Exception:
  assumes "snd (text_branch env packet) = Inl e" and "\<not> is_Exception e"
  shows "text_raised env packet e"
proof (cases "build_textmessage env packet")
  case (Inl e')
  with assms(1) have "e' = e" by (simp add: text_branch_def process_textmessage_def Let_def)
  with Inl safeD [OF safe_build_textmessage] assms(2) show ?thesis by blast
next
  case (Inr r)
  note r = this
  show ?thesis
  proof (cases "validate_typed_dict env r TextMessageT")
    case (Some e')
    with r assms(1) have "e' = e" by (simp add: text_branch_def process_textmessage_def Let_def)
    with r Some show ?thesis by (auto simp: text_raised_def)
  next
    case None
    note v = this
    show ?thesis
    proof (cases "json_dumps env r")
      case (Inl e')
      with r v assms(1) have "e' = e"
        by (simp add: text_branch_def process_textmessage_def Let_def)
      with r v Inl show ?thesis by (auto simp: text_raised_def)
    next
      case (Inr js)
      note js = this
      show ?thesis
      proof (cases "store_message env js")
        case (Some e')
        with r v js assms(1) have "e' = e"
          by (simp add: text_branch_def process_textmessage_def Let_def)
        with r v js Some show ?thesis by (auto simp: text_raised_def)
      next
        case None
        with r v js assms(1)
        have "getitem r ''from_id'' = Inl e \<or> text_line r = Inl e"
          by (auto simp: text_branch_def process_textmessage_def Let_def split: sum.splits)
        with safeD [OF safe_getitem] safeD [OF safe_text_line] have "is_Exception e" by blast
        with assms(2) show ?thesis by simp
      qed
    qed
  qed
qed

lemma body_node:
  assumes "andThen (getitem packet ''decoded'') (\<lambda>decoded. getitem decoded ''portnum'') =
             Inr (PStr ''NODEINFO_APP'')"
  shows "snd (process_packet_body env packet h) = snd (node_branch env packet)"
  using assms by (simp add: process_packet_body_def split: prod.splits)

lemma body_text:
  assumes "andThen (getitem packet ''decoded'') (\<lambda>decoded. getitem decoded ''portnum'') =
             Inr (PStr ''TEXT_MESSAGE_APP'')"
  shows "snd (process_packet_body env packet h) = snd (text_branch env packet)"
  using assms by (simp add: process_packet_body_def split: prod.splits)

lemma body_outside_Exception:
  assumes "snd (process_packet_body env packet h) = Inl e" and "\<not> is_Exception e"
  shows "andThen (getitem packet ''decoded'') (\<lambda>decoded. getitem decoded ''portnum'') =
             Inr (PStr ''NODEINFO_APP'') \<and> node_raised env packet e
         \<or> andThen (getitem packet ''decoded'') (\<lambda>decoded. getitem decoded ''portnum'') =
             Inr (PStr ''TEXT_MESSAGE_APP'') \<and> text_raised env packet e"
proof (cases "andThen (getitem packet ''decoded'') (\<lambda>decoded. getitem decoded ''portnum'')")
  case (Inl e')
  with assms(1) have "e' = e" by (simp add: process_packet_body_def)
  with Inl safeD [OF safe_read_portnum] assms(2) show ?thesis by blast
next
  case (Inr portnum)
  consider "portnum = PStr ''NODEINFO_APP''" | "portnum = PStr ''TEXT_MESSAGE_APP''"
    | "portnum \<noteq> PStr ''NODEINFO_APP''" "portnum \<noteq> PStr ''TEXT_MESSAGE_APP''" by blast
  then show ?thesis
  proof cases
    case 1
    with Inr assms(1) body_node [of packet env h] have "snd (node_branch env packet) = Inl e"
      by simp
    from node_branch_outside_Exception [OF this assms(2)] Inr 1 show ?thesis by simp
  next
    case 2
    with Inr assms(1) body_text [of packet env h] have "snd (text_branch env packet) = Inl e"
      by simp
    from text_branch_outside_Exception [OF this assms(2)] Inr 2 show ?thesis by simp
  next
    case 3
    with Inr assms(1) show ?thesis by (simp add: process_packet_body_def)
  qed
qed

lemma process_packet_of_body:
  "process_packet env packet h =
     (case snd (process_packet_body env packet h) of
        Inr u \<Rightarrow> (fst (process_packet_body env packet h), Inr ())
      | Inl e \<Rightarrow>
          if is_Exception e
          then (fst (process_packet_body env packet h) @ [Log Error (MsgErrorProcessing h e)],
                Inr ())
          else (fst (process_packet_body env packet h), Inl e))"
  by (simp add: process_packet_def split: prod.splits sum.splits)

text \<open>
  Claim C1, as amended. For every packet and every hint: an exception that the validator,
  \<^verbatim>\<open>json.dumps\<close>, \<^verbatim>\<open>dict\<close> or the store raises in the branch taken is caught, logged at
  level \<^verbatim>\<open>error\<close> as the last entry and swallowed when it is an instance of \<^verbatim>\<open>Exception\<close>,
  and leaves \<^verbatim>\<open>process_packet\<close> unlogged when it is not. Nothing else leaves
  \<^verbatim>\<open>process_packet\<close>: every exception of its own code is caught and logged, and the call
  returns normally whenever the exceptions that the collaborators raise in it are instances
  of \<^verbatim>\<open>Exception\<close>.
\<close>

theorem process_packet_swallows_Exception:
  "(\<forall>e. (andThen (getitem packet ''decoded'') (\<lambda>decoded. getitem decoded ''portnum'') =
            Inr (PStr ''NODEINFO_APP'') \<and> node_raised env packet e
          \<or> andThen (getitem packet ''decoded'') (\<lambda>decoded. getitem decoded ''portnum'') =
            Inr (PStr ''TEXT_MESSAGE_APP'') \<and> text_raised env packet e) \<longrightarrow>
        process_packet env packet packet_type =
          (if is_Exception e
           then (fst (process_packet_body env packet packet_type) @
                   [Log Error (MsgErrorProcessing packet_type e)], Inr ())
           else (fst (process_packet_body env packet packet_type), Inl e)))
   \<and> (\<forall>e. snd (process_packet env packet packet_type) = Inl e \<longrightarrow>
        \<not> is_Exception e \<and>
        (andThen (getitem packet ''decoded'') (\<lambda>decoded. getitem decoded ''portnum'') =
            Inr (PStr ''NODEINFO_APP'') \<and> node_raised env packet e
         \<or> andThen (getitem packet ''decoded'') (\<lambda>decoded. getitem decoded ''portnum'') =
            Inr (PStr ''TEXT_MESSAGE_APP'') \<and> text_raised env packet e))
   \<and> (\<forall>e. snd (process_packet_body env packet packet_type) = Inl e \<and> is_Exception e \<longrightarrow>
        process_packet env packet packet_type =
          (fst (process_packet_body env packet packet_type) @
             [Log Error (MsgErrorProcessing packet_type e)], Inr ()))
   \<and> ((\<forall>e. node_raised env packet e \<or> text_raised env packet e \<longrightarrow> is_Exception e) \<longrightarrow>
        snd (process_packet env packet packet_type) = Inr ())"
proof (intro conjI allI impI)
  fix e
  assume "andThen (getitem packet ''decoded'') (\<lambda>decoded. getitem decoded ''portnum'') =
            Inr (PStr ''NODEINFO_APP'') \<and> node_raised env packet e
          \<or> andThen (getitem packet ''decoded'') (\<lambda>decoded. getitem decoded ''portnum'') =
            Inr (PStr ''TEXT_MESSAGE_APP'') \<and> text_raised env packet e"
  then have "snd (process_packet_body env packet packet_type) = Inl e"
    using body_node [of packet env packet_type] body_text [of packet env packet_type]
      node_raised_reaches_branch [of env packet e] text_raised_reaches_branch [of env packet e]
    by auto
  then show "process_packet env packet packet_type =
          (if is_Exception e
           then (fst (process_packet_body env packet packet_type) @
                   [Log Error (MsgErrorProcessing packet_type e)], Inr ())
           else (fst (process_packet_body env packet packet_type), Inl e))"
    by (simp add: process_packet_of_body)
next
  fix e assume a: "snd (process_packet env packet packet_type) = Inl e"
  then have b: "snd (process_packet_body env packet packet_type) = Inl e \<and> \<not> is_Exception e"
    by (auto simp: process_packet_of_body split: sum.splits if_splits)
  then show "\<not> is_Exception e" by simp
  from b body_outside_Exception [of env packet packet_type e]
  show "andThen (getitem packet ''decoded'') (\<lambda>decoded. getitem decoded ''portnum'') =
            Inr (PStr ''NODEINFO_APP'') \<and> node_raised env packet e
         \<or> andThen (getitem packet ''decoded'') (\<lambda>decoded. getitem decoded ''portnum'') =
            Inr (PStr ''TEXT_MESSAGE_APP'') \<and> text_raised env packet e"
    by simp
next
  fix e assume "snd (process_packet_body env packet packet_type) = Inl e \<and> is_Exception e"
  then show "process_packet env packet packet_type =
          (fst (process_packet_body env packet packet_type) @
             [Log Error (MsgErrorProcessing packet_type e)], Inr ())"
    by (simp add: process_packet_of_body)
next
  assume a: "\<forall>e. node_raised env packet e \<or> text_raised env packet e \<longrightarrow> is_Exception e"
  show "snd (process_packet env packet packet_type) = Inr ()"
  proof (cases "snd (process_packet env packet packet_type)")
    case (Inr u)
    then show ?thesis by simp
  next
    case (Inl e)
    then have b: "snd (process_packet_body env packet packet_type) = Inl e \<and> \<not> is_Exception e"
      by (auto simp: process_packet_of_body split: sum.splits if_splits)
    with body_outside_Exception [of env packet packet_type e]
    have "node_raised env packet e \<or> text_raised env packet e" by blast
    with a b show ?thesis by blast
  qed
qed

lemma node_packet_body_raises:
  "process_packet_body fixture_env (node_packet []) ''node'' =
     ([Log Debug (MsgProcessing ''node''), Log Error (MsgErrorNode (KeyError ''longName''))],
      Inl (KeyError ''longName''))"
  by (simp add: process_packet_body_def node_branch_def process_nodeinfo_def build_nodeinfo_def
      user_dict_def node_packet_def mk_dict_def getitem_PDict py_dict_def int_item_def
      str_item_def py_int_def py_str_def build_user_def Let_def)

lemma cancelled_node_store_raised:
  "andThen (getitem (node_packet [(''longName'', PStr ''Base'')]) ''decoded'')
       (\<lambda>decoded. getitem decoded ''portnum'') = Inr (PStr ''NODEINFO_APP'')
   \<and> node_raised cancelling_node_env (node_packet [(''longName'', PStr ''Base'')])
       (BaseOnly ''CancelledError'')"
proof -
  have "build_nodeinfo cancelling_node_env (node_packet [(''longName'', PStr ''Base'')]) =
      Inr fixture_node_record"
    by (simp add: cancelling_node_env_def fixture_eval)
  moreover have "validate_typed_dict cancelling_node_env fixture_node_record NodeInfoT = None"
    by (simp add: cancelling_node_env_def fixture_eval field_mk_dict)
  moreover have "\<exists>js. json_dumps cancelling_node_env fixture_node_record = Inr js"
    by (simp add: cancelling_node_env_def fixture_env_def fixture_dumps_def
        fixture_node_record_def fixture_metrics_def mk_dict_def)
  moreover have "\<And>js. store_node cancelling_node_env js = Some (BaseOnly ''CancelledError'')"
    by (simp add: cancelling_node_env_def)
  ultimately have "node_raised cancelling_node_env (node_packet [(''longName'', PStr ''Base'')])
       (BaseOnly ''CancelledError'')"
    unfolding node_raised_def by blast
  moreover have "andThen (getitem (node_packet [(''longName'', PStr ''Base'')]) ''decoded'')
       (\<lambda>decoded. getitem decoded ''portnum'') = Inr (PStr ''NODEINFO_APP'')"
    by (simp add: node_packet_def getitem_mk_dict)
  ultimately show ?thesis by simp
qed

lemma fixture_py_dict_raises: "py_dict fixture_env u = Inl e \<Longrightarrow> is_Exception e"
  by (cases u) (auto simp: py_dict_def fixture_env_def)

lemma fixture_validate_raises: "validate_typed_dict fixture_env r T = Some e \<Longrightarrow> is_Exception e"
  by (auto simp: fixture_env_def spec_validate_def split: if_splits)

lemma fixture_dumps_raises: "json_dumps fixture_env r = Inl e \<Longrightarrow> is_Exception e"
  by (auto simp: fixture_env_def fixture_dumps_def split: option.splits)

lemma fixture_store_returns: "store_node fixture_env js = None" "store_message fixture_env js = None"
  by (simp_all add: fixture_env_def)

lemma fixture_collaborators_raise_Exception:
  assumes "node_raised fixture_env p e \<or> text_raised fixture_env p e"
  shows "is_Exception e"
  using assms fixture_py_dict_raises fixture_validate_raises fixture_dumps_raises
  unfolding node_raised_def text_raised_def fixture_store_returns
  by blast

theorem process_packet_swallows_Exception_witness:
  "snd (process_packet_body fixture_env (node_packet []) ''node'') = Inl (KeyError ''longName'')
   \<and> process_packet fixture_env (node_packet []) ''node'' =
       ([Log Debug (MsgProcessing ''node''), Log Error (MsgErrorNode (KeyError ''longName'')),
         Log Error (MsgErrorProcessing ''node'' (KeyError ''longName''))], Inr ())
   \<and> snd (process_packet fixture_env (text_packet (PStr ''!01'')) ''text'') = Inr ()
   \<and> node_raised cancelling_node_env (node_packet [(''longName'', PStr ''Base'')])
       (BaseOnly ''CancelledError'')
   \<and> snd (process_packet cancelling_node_env (node_packet [(''longName'', PStr ''Base'')])
            ''node'') = Inl (BaseOnly ''CancelledError'')"
proof -
  have b: "snd (process_packet_body fixture_env (node_packet []) ''node'') =
      Inl (KeyError ''longName'') \<and> is_Exception (KeyError ''longName'')"
    by (simp add: node_packet_body_raises)
  from process_packet_swallows_Exception [of "node_packet []" fixture_env "''node''",
      THEN conjunct2, THEN conjunct2, THEN conjunct1, rule_format, OF b]
  have c: "process_packet fixture_env (node_packet []) ''node'' =
       ([Log Debug (MsgProcessing ''node''), Log Error (MsgErrorNode (KeyError ''longName'')),
         Log Error (MsgErrorProcessing ''node'' (KeyError ''longName''))], Inr ())"
    by (simp add: node_packet_body_raises)
  from process_packet_swallows_Exception [of "text_packet (PStr ''!01'')" fixture_env "''text''",
      THEN conjunct2, THEN conjunct2, THEN conjunct2, rule_format,
      OF fixture_collaborators_raise_Exception]
  have d: "snd (process_packet fixture_env (text_packet (PStr ''!01'')) ''text'') = Inr ()" .
  from process_packet_swallows_Exception
      [of "node_packet [(''longName'', PStr ''Base'')]" cancelling_node_env "''node''",
       THEN conjunct1, rule_format, of "BaseOnly ''CancelledError''"]
    cancelled_node_store_raised
  have e: "snd (process_packet cancelling_node_env (node_packet [(''longName'', PStr ''Base'')])
            ''node'') = Inl (BaseOnly ''CancelledError'')"
    by simp
  from b c d cancelled_node_store_raised e show ?thesis by simp
qed

text \<open>
  Claim C1, as stated, fails: an exception outside \<^verbatim>\<open>Exception\<close>, here the
  \<^verbatim>\<open>asyncio.CancelledError\<close> of a store call cancelled while it is awaited, is not caught and
  leaves \<^verbatim>\<open>process_packet\<close>.
\<close>

theorem cancelled_store_propagates:
  "snd (process_packet cancelling_env (text_packet (PStr ''!01'')) ''text'') =
     Inl (BaseOnly ''CancelledError'')"
  by (simp add: process_packet_def process_packet_body_def text_branch_def
      process_textmessage_def build_textmessage_def inline_metrics_def
      text_packet_def mk_dict_def getitem_PDict get_default_PDict int_item_def str_item_def
      int_get_def float_get_def py_int_def py_float_def py_str_def Let_def
      cancelling_env_def fixture_env_def spec_validate_def has_str_def has_int_def
      opt_int_def opt_float_def nested_def valid_metrics_def field_def fixture_dumps_def
      dec_nat.simps)

section \<open>Validation precedes storage\<close>

lemma unique_store:
  assumes "xs @ s # rest = pre @ ev # post"
    and "filter is_store xs = []" and "filter is_store rest = []" and "is_store ev"
  shows "pre = xs \<and> ev = s"
  using assms
proof (induction xs arbitrary: pre)
  case Nil
  show ?case
  proof (cases pre)
    case Nil
    with Nil.prems show ?thesis by simp
  next
    case (Cons a pre')
    with Nil.prems have "ev \<in> set rest" by auto
    with Nil.prems show ?thesis by (auto simp: filter_empty_conv)
  qed
next
  case (Cons x xs)
  show ?case
  proof (cases pre)
    case Nil
    with Cons.prems show ?thesis by (auto simp: filter_empty_conv)
  next
    case (Cons a pre')
    with Cons.prems Cons.IH [of pre'] show ?thesis by (auto split: if_splits)
  qed
qed

lemma no_store_no_split:
  assumes "tr = pre @ ev # post" and "filter is_store tr = []"
  shows "\<not> is_store ev"
  using assms by (auto simp: filter_empty_conv)

lemma process_nodeinfo_cases:
  "(\<exists>e t. process_nodeinfo env p = (t, Inl e) \<and> filter is_store t = [])
   \<or> (\<exists>r. build_nodeinfo env p = Inr r \<and> validate_typed_dict env r NodeInfoT = None \<and>
          process_nodeinfo env p =
            ([Validate r NodeInfoT, Log Debug (MsgValidatedNode r)], Inr r))"
  by (auto simp: process_nodeinfo_def Let_def split: sum.splits option.splits)

lemma process_textmessage_cases:
  "(\<exists>e t. process_textmessage env p = (t, Inl e) \<and> filter is_store t = [])
   \<or> (\<exists>r. build_textmessage env p = Inr r \<and> validate_typed_dict env r TextMessageT = None \<and>
          process_textmessage env p =
            ([Validate r TextMessageT, Log Debug (MsgValidatedText r)], Inr r))"
  by (auto simp: process_textmessage_def Let_def split: sum.splits option.splits)

lemma node_branch_trace:
  "filter is_store (fst (node_branch env p)) = []
   \<or> (\<exists>r js rest. build_nodeinfo env p = Inr r \<and> validate_typed_dict env r NodeInfoT = None \<and>
          json_dumps env r = Inr js \<and>
          fst (node_branch env p) =
            [Validate r NodeInfoT, Log Debug (MsgValidatedNode r)] @ StoreNode js # rest \<and>
          filter is_store rest = [])"
  using process_nodeinfo_cases [of env p]
  by (auto simp: node_branch_def split: sum.splits option.splits)

lemma text_branch_trace:
  "filter is_store (fst (text_branch env p)) = []
   \<or> (\<exists>r js rest. build_textmessage env p = Inr r \<and>
          validate_typed_dict env r TextMessageT = None \<and> json_dumps env r = Inr js \<and>
          fst (text_branch env p) =
            [Validate r TextMessageT, Log Debug (MsgValidatedText r)] @ StoreMessage js # rest \<and>
          filter is_store rest = [])"
  using process_textmessage_cases [of env p]
  by (auto simp: text_branch_def split: sum.splits option.splits)

lemma process_packet_body_trace:
  "filter is_store (fst (process_packet_body env p h)) = []
   \<or> (\<exists>r js rest. build_nodeinfo env p = Inr r \<and> validate_typed_dict env r NodeInfoT = None \<and>
          json_dumps env r = Inr js \<and>
          fst (process_packet_body env p h) =
            [Log Debug (MsgProcessing h), Validate r NodeInfoT, Log Debug (MsgValidatedNode r)]
              @ StoreNode js # rest \<and>
          filter is_store rest = [])
   \<or> (\<exists>r js rest. build_textmessage env p = Inr r \<and>
          validate_typed_dict env r TextMessageT = None \<and> json_dumps env r = Inr js \<and>
          fst (process_packet_body env p h) =
            [Log Debug (MsgProcessing h), Validate r TextMessageT, Log Debug (MsgValidatedText r)]
              @ StoreMessage js # rest \<and>
          filter is_store rest = [])"
proof (cases "andThen (getitem p ''decoded'') (\<lambda>decoded. getitem decoded ''portnum'')")
  case (Inl e)
  then show ?thesis by (simp add: process_packet_body_def)
next
  case (Inr portnum)
  consider "portnum = PStr ''NODEINFO_APP''" | "portnum = PStr ''TEXT_MESSAGE_APP''"
    | "portnum \<noteq> PStr ''NODEINFO_APP''" "portnum \<noteq> PStr ''TEXT_MESSAGE_APP''" by blast
  then show ?thesis
  proof cases
    case 1
    with Inr have b: "fst (process_packet_body env p h) =
        Log Debug (MsgProcessing h) # fst (node_branch env p)"
      by (simp add: process_packet_body_def split: prod.splits)
    from node_branch_trace [of env p] show ?thesis
    proof
      assume "filter is_store (fst (node_branch env p)) = []"
      with b show ?thesis by simp
    next
      assume "\<exists>r js rest. build_nodeinfo env p = Inr r \<and>
          validate_typed_dict env r NodeInfoT = None \<and> json_dumps env r = Inr js \<and>
          fst (node_branch env p) =
            [Validate r NodeInfoT, Log Debug (MsgValidatedNode r)] @ StoreNode js # rest \<and>
          filter is_store rest = []"
      with b show ?thesis by auto
    qed
  next
    case 2
    with Inr have b: "fst (process_packet_body env p h) =
        Log Debug (MsgProcessing h) # fst (text_branch env p)"
      by (simp add: process_packet_body_def split: prod.splits)
    from text_branch_trace [of env p] show ?thesis
    proof
      assume "filter is_store (fst (text_branch env p)) = []"
      with b show ?thesis by simp
    next
      assume "\<exists>r js rest. build_textmessage env p = Inr r \<and>
          validate_typed_dict env r TextMessageT = None \<and> json_dumps env r = Inr js \<and>
          fst (text_branch env p) =
            [Validate r TextMessageT, Log Debug (MsgValidatedText r)] @ StoreMessage js # rest \<and>
          filter is_store rest = []"
      with b show ?thesis by auto
    qed
  next
    case 3
    with Inr show ?thesis by (simp add: process_packet_body_def)
  qed
qed

lemma process_packet_trace_ext:
  "\<exists>tail. fst (process_packet env p h) = fst (process_packet_body env p h) @ tail \<and>
          filter is_store tail = []"
  by (auto simp: process_packet_def split: prod.splits sum.splits)

lemma process_packet_trace:
  "filter is_store (fst (process_packet env p h)) = []
   \<or> (\<exists>r js rest. build_nodeinfo env p = Inr r \<and> validate_typed_dict env r NodeInfoT = None \<and>
          json_dumps env r = Inr js \<and>
          fst (process_packet env p h) =
            [Log Debug (MsgProcessing h), Validate r NodeInfoT, Log Debug (MsgValidatedNode r)]
              @ StoreNode js # rest \<and>
          filter is_store rest = [])
   \<or> (\<exists>r js rest. build_textmessage env p = Inr r \<and>
          validate_typed_dict env r TextMessageT = None \<and> json_dumps env r = Inr js \<and>
          fst (process_packet env p h) =
            [Log Debug (MsgProcessing h), Validate r TextMessageT, Log Debug (MsgValidatedText r)]
              @ StoreMessage js # rest \<and>
          filter is_store rest = [])"
proof -
  from process_packet_trace_ext [of env p h] obtain tail
    where t: "fst (process_packet env p h) = fst (process_packet_body env p h) @ tail"
      and n: "filter is_store tail = []" by blast
  from process_packet_body_trace [of env p h] show ?thesis
  proof (elim disjE exE conjE)
    assume "filter is_store (fst (process_packet_body env p h)) = []"
    with t n show ?thesis by simp
  next
    fix r js rest
    assume "build_nodeinfo env p = Inr r" "validate_typed_dict env r NodeInfoT = None"
      "json_dumps env r = Inr js"
      "fst (process_packet_body env p h) =
         [Log Debug (MsgProcessing h), Validate r NodeInfoT, Log Debug (MsgValidatedNode r)]
           @ StoreNode js # rest"
      "filter is_store rest = []"
    with t n have "build_nodeinfo env p = Inr r \<and> validate_typed_dict env r NodeInfoT = None \<and>
          json_dumps env r = Inr js \<and>
          fst (process_packet env p h) =
            [Log Debug (MsgProcessing h), Validate r NodeInfoT, Log Debug (MsgValidatedNode r)]
              @ StoreNode js # (rest @ tail) \<and>
          filter is_store (rest @ tail) = []" by simp
    then show ?thesis by blast
  next
    fix r js rest
    assume "build_textmessage env p = Inr r" "validate_typed_dict env r TextMessageT = None"
      "json_dumps env r = Inr js"
      "fst (process_packet_body env p h) =
         [Log Debug (MsgProcessing h), Validate r TextMessageT, Log Debug (MsgValidatedText r)]
           @ StoreMessage js # rest"
      "filter is_store rest = []"
    with t n have "build_textmessage env p = Inr r \<and>
          validate_typed_dict env r TextMessageT = None \<and> json_dumps env r = Inr js \<and>
          fst (process_packet env p h) =
            [Log Debug (MsgProcessing h), Validate r TextMessageT, Log Debug (MsgValidatedText r)]
              @ StoreMessage js # (rest @ tail) \<and>
          filter is_store (rest @ tail) = []" by simp
    then show ?thesis by blast
  qed
qed

text \<open>
  Claim C2. Whenever the trace of \<^verbatim>\<open>process_packet\<close> contains a call of \<^verbatim>\<open>store_node\<close> or
  \<^verbatim>\<open>store_message\<close>, the text handed over is the serialization of the record that this call
  built from the packet, and the call is preceded in the trace by the call of
  \<^verbatim>\<open>validate_typed_dict\<close> on that record, which returned without raising.
\<close>

theorem store_only_after_validation:
  assumes "fst (process_packet env packet packet_type) = pre @ ev # post"
  shows "(ev = StoreNode js \<longrightarrow>
            (\<exists>r. build_nodeinfo env packet = Inr r \<and> Validate r NodeInfoT \<in> set pre \<and>
                 validate_typed_dict env r NodeInfoT = None \<and> json_dumps env r = Inr js))
         \<and> (ev = StoreMessage js \<longrightarrow>
            (\<exists>r. build_textmessage env packet = Inr r \<and> Validate r TextMessageT \<in> set pre \<and>
                 validate_typed_dict env r TextMessageT = None \<and> json_dumps env r = Inr js))"
proof (cases "is_store ev")
  case False
  then show ?thesis by auto
next
  case True
  from process_packet_trace [of env packet packet_type] show ?thesis
  proof (elim disjE exE conjE)
    assume "filter is_store (fst (process_packet env packet packet_type)) = []"
    with no_store_no_split [OF assms] True show ?thesis by simp
  next
    fix r js' rest
    assume r: "build_nodeinfo env packet = Inr r" "validate_typed_dict env r NodeInfoT = None"
      "json_dumps env r = Inr js'"
      and tr: "fst (process_packet env packet packet_type) =
         [Log Debug (MsgProcessing packet_type), Validate r NodeInfoT,
          Log Debug (MsgValidatedNode r)] @ StoreNode js' # rest"
      and n: "filter is_store rest = []"
    from tr assms have "[Log Debug (MsgProcessing packet_type), Validate r NodeInfoT,
          Log Debug (MsgValidatedNode r)] @ StoreNode js' # rest = pre @ ev # post" by simp
    from unique_store [OF this _ n True]
    have "pre = [Log Debug (MsgProcessing packet_type), Validate r NodeInfoT,
          Log Debug (MsgValidatedNode r)]" and "ev = StoreNode js'" by simp_all
    with r show ?thesis by auto
  next
    fix r js' rest
    assume r: "build_textmessage env packet = Inr r"
      "validate_typed_dict env r TextMessageT = None" "json_dumps env r = Inr js'"
      and tr: "fst (process_packet env packet packet_type) =
         [Log Debug (MsgProcessing packet_type), Validate r TextMessageT,
          Log Debug (MsgValidatedText r)] @ StoreMessage js' # rest"
      and n: "filter is_store rest = []"
    from tr assms have "[Log Debug (MsgProcessing packet_type), Validate r TextMessageT,
          Log Debug (MsgValidatedText r)] @ StoreMessage js' # rest = pre @ ev # post" by simp
    from unique_store [OF this _ n True]
    have "pre = [Log Debug (MsgProcessing packet_type), Validate r TextMessageT,
          Log Debug (MsgValidatedText r)]" and "ev = StoreMessage js'" by simp_all
    with r show ?thesis by auto
  qed
qed

lemma fixture_text_trace:
  "fst (process_packet fixture_env (text_packet (PStr ''!01'')) ''text'') =
     [Log Debug (MsgProcessing ''text''),
      Validate (fixture_text_record ''!01'') TextMessageT,
      Log Debug (MsgValidatedText (fixture_text_record ''!01''))]
     @ StoreMessage (the (json_text (fixture_text_record ''!01'')))
     # [Log Info (MsgStoredText (PStr ''!01'')),
        Log Info (MsgTextLine (PStr ''2025-01-01T12:00:00'') (PStr ''!01'') (PStr ''^all'')
                    (PStr ''hi''))]"
  by (simp add: process_packet_def process_packet_body_def text_branch_def text_line_def
      process_textmessage_def build_textmessage_def inline_metrics_def
      text_packet_def mk_dict_def getitem_PDict get_default_PDict int_item_def str_item_def
      int_get_def float_get_def py_int_def py_float_def py_str_def Let_def
      fixture_env_def spec_validate_def has_str_def has_int_def
      opt_int_def opt_float_def nested_def valid_metrics_def field_def fixture_dumps_def
      fixture_text_record_def fixture_metrics_def dec_nat.simps)

theorem store_only_after_validation_witness:
  "fst (process_packet fixture_env (text_packet (PStr ''!01'')) ''text'') =
     [Log Debug (MsgProcessing ''text''),
      Validate (fixture_text_record ''!01'') TextMessageT,
      Log Debug (MsgValidatedText (fixture_text_record ''!01''))]
     @ StoreMessage (the (json_text (fixture_text_record ''!01'')))
     # [Log Info (MsgStoredText (PStr ''!01'')),
        Log Info (MsgTextLine (PStr ''2025-01-01T12:00:00'') (PStr ''!01'') (PStr ''^all'')
                    (PStr ''hi''))]
   \<and> (\<exists>r. build_textmessage fixture_env (text_packet (PStr ''!01'')) = Inr r \<and>
          validate_typed_dict fixture_env r TextMessageT = None \<and>
          json_dumps fixture_env r = Inr (the (json_text (fixture_text_record ''!01''))))"
  using store_only_after_validation [OF fixture_text_trace,
      of "the (json_text (fixture_text_record ''!01''))"] fixture_text_trace
  by blast

section \<open>Defaults of the embedded metrics\<close>

lemma py_float_zero: "py_float env (PInt 0) = Inr (Finite 0)"
  by (simp add: py_float_def)

lemma py_int_zero: "py_int env (PInt 0) = Inr 0"
  by (simp add: py_int_def)

lemma inline_metrics_defaults:
  assumes "field p ''rxSnr'' = None" and "field p ''rxRssi'' = None"
    and "inline_metrics env p = Inr m"
  shows "field m ''rx_snr'' = Some (PFloat (Finite 0)) \<and> field m ''rx_rssi'' = Some (PInt 0)"
proof -
  from inline_metrics_Inr [OF assms(3)] obtain rx_time rx_snr rx_rssi hop_limit
    where s: "float_get env p ''rxSnr'' (PInt 0) = Inr rx_snr"
      and r: "int_get env p ''rxRssi'' (PInt 0) = Inr rx_rssi"
      and m: "m = mk_dict [(''rx_time'', rx_time), (''rx_snr'', rx_snr),
                        (''rx_rssi'', rx_rssi), (''hop_limit'', hop_limit)]" by blast
  from s assms(1) have "rx_snr = PFloat (Finite 0)"
    by (auto simp: float_get_def andThen_eq_Inr py_float_zero dest!: get_default_field)
  moreover from r assms(2) have "rx_rssi = PInt 0"
    by (auto simp: int_get_def andThen_eq_Inr py_int_zero dest!: get_default_field)
  ultimately show ?thesis using m by (simp add: field_mk_dict)
qed

lemma extract_metrics_absent:
  assumes "field p ''rxSnr'' = None" and "field p ''rxRssi'' = None"
    and "extract_metrics p = Inr m"
  shows "field m ''rx_snr'' = Some PNone \<and> field m ''rx_rssi'' = Some PNone"
  using assms
  by (auto simp: extract_metrics_def andThen_eq_Inr field_mk_dict dest!: get_default_field)

lemma field_getitem: "field p k \<noteq> None \<Longrightarrow> \<exists>x. getitem p k = Inr x"
  by (cases p) (auto simp: getitem_def field_def)

lemma field_str_item: "field p k \<noteq> None \<Longrightarrow> \<exists>x. str_item env p k = Inr x"
  using field_getitem [of p k] by (auto simp: str_item_def)

lemma get_default_absent:
  "getitem p k' = Inr x \<Longrightarrow> field p k = None \<Longrightarrow> get_default p k dflt = Inr dflt"
  by (cases p) (auto simp: getitem_def get_default_def field_def)

lemma textmessage_returns:
  assumes "int_item env p ''from'' = Inr fn" and "int_item env p ''to'' = Inr tn"
    and "int_item env p ''rxTime'' = Inr rn" and "int_get env p ''hopLimit'' (PInt 3) = Inr hl"
    and "field p ''fromId'' \<noteq> None" and "field p ''toId'' \<noteq> None" and "field p ''raw'' \<noteq> None"
    and "getitem p ''decoded'' = Inr dec" and "field dec ''text'' \<noteq> None"
    and "field p ''rxSnr'' = None" and "field p ''rxRssi'' = None"
    and "\<forall>r. build_textmessage env p = Inr r \<longrightarrow> validate_typed_dict env r TextMessageT = None"
  shows "\<exists>r. snd (process_textmessage env p) = Inr r"
proof -
  from assms(5) obtain fi where fi: "str_item env p ''fromId'' = Inr fi"
    using field_str_item by blast
  from assms(6) obtain ti where ti: "str_item env p ''toId'' = Inr ti"
    using field_str_item by blast
  from assms(7) obtain raw where raw: "str_item env p ''raw'' = Inr raw"
    using field_str_item by blast
  from assms(9) obtain tx where tx: "str_item env dec ''text'' = Inr tx"
    using field_str_item by blast
  from assms(8,10) have "float_get env p ''rxSnr'' (PInt 0) = Inr (PFloat (Finite 0))"
    by (simp add: float_get_def get_default_absent py_float_zero)
  moreover from assms(8,11) have "int_get env p ''rxRssi'' (PInt 0) = Inr (PInt 0)"
    by (simp add: int_get_def get_default_absent py_int_zero)
  ultimately have "\<exists>m. inline_metrics env p = Inr m"
    using assms(3,4) by (simp add: inline_metrics_def)
  then obtain r where r: "build_textmessage env p = Inr r"
    using assms(1,2,8) fi ti raw tx by (auto simp: build_textmessage_def)
  with assms(12) have "validate_typed_dict env r TextMessageT = None" by simp
  with r show ?thesis by (simp add: process_textmessage_def Let_def)
qed

text \<open>
  Claim C4. For a packet without \<^verbatim>\<open>rxSnr\<close> and \<^verbatim>\<open>rxRssi\<close>, \<^verbatim>\<open>_process_textmessage\<close> returns a
  record when the required fields are present, \<^verbatim>\<open>from\<close>, \<^verbatim>\<open>to\<close>, \<^verbatim>\<open>rxTime\<close> and \<^verbatim>\<open>hopLimit\<close>
  convert to integers and the validator accepts the record; every record that
  \<^verbatim>\<open>_process_textmessage\<close> returns has \<^verbatim>\<open>metrics.rx_snr = 0.0\<close> and \<^verbatim>\<open>metrics.rx_rssi = 0\<close>,
  both equal to zero in Python, and so has every record that \<^verbatim>\<open>_process_nodeinfo\<close> returns;
  \<^verbatim>\<open>_extract_metrics\<close> on the same packet gives \<^verbatim>\<open>None\<close> for both, which is not zero.
\<close>

theorem embedded_metrics_default_to_zero:
  assumes "field packet ''rxSnr'' = None" and "field packet ''rxRssi'' = None"
  shows "(\<forall>fn tn rn hl dec.
            int_item env packet ''from'' = Inr fn \<and> int_item env packet ''to'' = Inr tn \<and>
            int_item env packet ''rxTime'' = Inr rn \<and>
            int_get env packet ''hopLimit'' (PInt 3) = Inr hl \<and>
            field packet ''fromId'' \<noteq> None \<and> field packet ''toId'' \<noteq> None \<and>
            field packet ''raw'' \<noteq> None \<and> getitem packet ''decoded'' = Inr dec \<and>
            field dec ''text'' \<noteq> None \<and>
            (\<forall>r. build_textmessage env packet = Inr r \<longrightarrow>
                 validate_typed_dict env r TextMessageT = None) \<longrightarrow>
            (\<exists>r. snd (process_textmessage env packet) = Inr r))
         \<and> (\<forall>r. snd (process_textmessage env packet) = Inr r \<longrightarrow>
            (\<exists>m. field r ''metrics'' = Some m \<and> field m ''rx_snr'' = Some (PFloat (Finite 0)) \<and>
                 field m ''rx_rssi'' = Some (PInt 0)))
         \<and> (\<forall>r. snd (process_nodeinfo env packet) = Inr r \<longrightarrow>
            (\<exists>m. field r ''metrics'' = Some m \<and> field m ''rx_snr'' = Some (PFloat (Finite 0)) \<and>
                 field m ''rx_rssi'' = Some (PInt 0)))
         \<and> (\<forall>m. extract_metrics packet = Inr m \<longrightarrow>
              field m ''rx_snr'' = Some PNone \<and> field m ''rx_rssi'' = Some PNone)
         \<and> py_eq_zero (PFloat (Finite 0)) \<and> py_eq_zero (PInt 0) \<and> \<not> py_eq_zero PNone"
proof (intro conjI allI impI)
  fix fn tn rn hl dec
  assume "int_item env packet ''from'' = Inr fn \<and> int_item env packet ''to'' = Inr tn \<and>
      int_item env packet ''rxTime'' = Inr rn \<and>
      int_get env packet ''hopLimit'' (PInt 3) = Inr hl \<and>
      field packet ''fromId'' \<noteq> None \<and> field packet ''toId'' \<noteq> None \<and>
      field packet ''raw'' \<noteq> None \<and> getitem packet ''decoded'' = Inr dec \<and>
      field dec ''text'' \<noteq> None \<and>
      (\<forall>r. build_textmessage env packet = Inr r \<longrightarrow>
           validate_typed_dict env r TextMessageT = None)"
  with assms show "\<exists>r. snd (process_textmessage env packet) = Inr r"
    using textmessage_returns [of env packet fn tn rn hl dec] by blast
next
  fix r assume "snd (process_textmessage env packet) = Inr r"
  then have "build_textmessage env packet = Inr r" by (simp add: process_textmessage_Inr)
  from build_textmessage_Inr [OF this] obtain m where "inline_metrics env packet = Inr m"
    and "field r ''metrics'' = Some m" by (auto simp: field_mk_dict)
  with inline_metrics_defaults [OF assms, of env m]
  show "\<exists>m. field r ''metrics'' = Some m \<and> field m ''rx_snr'' = Some (PFloat (Finite 0)) \<and>
                 field m ''rx_rssi'' = Some (PInt 0)" by blast
next
  fix r assume "snd (process_nodeinfo env packet) = Inr r"
  then have "build_nodeinfo env packet = Inr r" by (simp add: process_nodeinfo_Inr)
  from build_nodeinfo_Inr [OF this] obtain m where "inline_metrics env packet = Inr m"
    and "field r ''metrics'' = Some m" by (auto simp: field_mk_dict)
  with inline_metrics_defaults [OF assms, of env m]
  show "\<exists>m. field r ''metrics'' = Some m \<and> field m ''rx_snr'' = Some (PFloat (Finite 0)) \<and>
                 field m ''rx_rssi'' = Some (PInt 0)" by blast
next
  fix m assume "extract_metrics packet = Inr m"
  from extract_metrics_absent [OF assms this]
  show "field m ''rx_snr'' = Some PNone" and "field m ''rx_rssi'' = Some PNone" by simp_all
qed simp_all

theorem embedded_metrics_default_to_zero_witness:
  "field (text_packet (PStr ''!01'')) ''rxSnr'' = None
   \<and> field (text_packet (PStr ''!01'')) ''rxRssi'' = None
   \<and> snd (process_textmessage fixture_env (text_packet (PStr ''!01''))) =
       Inr (fixture_text_record ''!01'')
   \<and> (\<exists>m. field (fixture_text_record ''!01'') ''metrics'' = Some m \<and>
          field m ''rx_snr'' = Some (PFloat (Finite 0)) \<and> field m ''rx_rssi'' = Some (PInt 0))
   \<and> field (node_packet [(''longName'', PStr ''Base'')]) ''rxSnr'' = None
   \<and> field (node_packet [(''longName'', PStr ''Base'')]) ''rxRssi'' = None
   \<and> snd (process_nodeinfo fixture_env (node_packet [(''longName'', PStr ''Base'')])) =
       Inr fixture_node_record
   \<and> (\<exists>m. field fixture_node_record ''metrics'' = Some m \<and>
          field m ''rx_snr'' = Some (PFloat (Finite 0)) \<and> field m ''rx_rssi'' = Some (PInt 0))"
proof -
  have t: "field (text_packet (PStr ''!01'')) ''rxSnr'' = None"
    "field (text_packet (PStr ''!01'')) ''rxRssi'' = None"
    by (simp_all add: text_packet_def field_mk_dict)
  have n: "field (node_packet [(''longName'', PStr ''Base'')]) ''rxSnr'' = None"
    "field (node_packet [(''longName'', PStr ''Base'')]) ''rxRssi'' = None"
    by (simp_all add: node_packet_def field_mk_dict)
  from embedded_metrics_default_to_zero [OF t, of fixture_env] fixture_text_normalized
  have "\<exists>m. field (fixture_text_record ''!01'') ''metrics'' = Some m \<and>
          field m ''rx_snr'' = Some (PFloat (Finite 0)) \<and> field m ''rx_rssi'' = Some (PInt 0)"
    by blast
  moreover
  from embedded_metrics_default_to_zero [OF n, of fixture_env] fixture_node_normalized
  have "\<exists>m. field fixture_node_record ''metrics'' = Some m \<and>
          field m ''rx_snr'' = Some (PFloat (Finite 0)) \<and> field m ''rx_rssi'' = Some (PInt 0)"
    by blast
  ultimately show ?thesis using t n fixture_text_normalized fixture_node_normalized by blast
qed

section \<open>Round trip through the message formatter\<close>

text \<open>
  Claim C7, as amended. Let \<^verbatim>\<open>_process_textmessage\<close> return a record for the packet, let
  \<^verbatim>\<open>json.dumps\<close> print it and \<^verbatim>\<open>json.loads\<close> read the record back from that text. Then
  \<^verbatim>\<open>format_message_for_display\<close> on the text returns the record's timestamp, and under
  \<^verbatim>\<open>from\<close>, \<^verbatim>\<open>to\<close> and \<^verbatim>\<open>text\<close> the results of \<^verbatim>\<open>str\<close> on the packet's \<^verbatim>\<open>fromId\<close>, \<^verbatim>\<open>toId\<close> and
  \<^verbatim>\<open>decoded.text\<close>; these are the packet's own values whenever those are strings.
\<close>

theorem display_roundtrip_coerced:
  assumes "snd (process_textmessage env packet) = Inr r"
    and "json_dumps env r = Inr js"
    and "json_loads env js = Inr r"
  shows "\<exists>from_id to_id decoded text.
           getitem packet ''fromId'' = Inr from_id \<and> getitem packet ''toId'' = Inr to_id \<and>
           getitem packet ''decoded'' = Inr decoded \<and> getitem decoded ''text'' = Inr text \<and>
           field r ''timestamp'' = Some (PStr (now_iso env)) \<and>
           format_message_for_display env js =
             ([], Inr (mk_dict [(''timestamp'', PStr (now_iso env)),
                                (''from'', PStr (py_str env from_id)),
                                (''to'', PStr (py_str env to_id)),
                                (''text'', PStr (py_str env text))])) \<and>
           (\<forall>s. from_id = PStr s \<longrightarrow> PStr (py_str env from_id) = from_id) \<and>
           (\<forall>s. to_id = PStr s \<longrightarrow> PStr (py_str env to_id) = to_id) \<and>
           (\<forall>s. text = PStr s \<longrightarrow> PStr (py_str env text) = text)"
proof -
  from assms(1) have "build_textmessage env packet = Inr r" by (simp add: process_textmessage_Inr)
  from build_textmessage_Inr [OF this]
  obtain from_num from_id' to_num to_id' decoded text' metrics raw
    where f: "str_item env packet ''fromId'' = Inr from_id'"
      and t: "str_item env packet ''toId'' = Inr to_id'"
      and d: "getitem packet ''decoded'' = Inr decoded"
      and x: "str_item env decoded ''text'' = Inr text'"
      and r: "r = mk_dict [(''type'', PStr ''text''), (''timestamp'', PStr (now_iso env)),
                        (''from_num'', from_num), (''from_id'', from_id'),
                        (''to_num'', to_num), (''to_id'', to_id'), (''text'', text'),
                        (''metrics'', metrics), (''raw'', raw)]" by blast
  from f obtain from_id where f1: "getitem packet ''fromId'' = Inr from_id"
    and f2: "from_id' = PStr (py_str env from_id)" by (auto simp: str_item_Inr)
  from t obtain to_id where t1: "getitem packet ''toId'' = Inr to_id"
    and t2: "to_id' = PStr (py_str env to_id)" by (auto simp: str_item_Inr)
  from x obtain body where x1: "getitem decoded ''text'' = Inr body"
    and x2: "text' = PStr (py_str env body)" by (auto simp: str_item_Inr)
  have "message_projection r =
      Inr (mk_dict [(''timestamp'', PStr (now_iso env)), (''from'', from_id'), (''to'', to_id'),
                    (''text'', text')])"
    by (simp add: r message_projection_def getitem_mk_dict)
  with assms(3) f2 t2 x2 have "format_message_for_display env js =
             ([], Inr (mk_dict [(''timestamp'', PStr (now_iso env)),
                                (''from'', PStr (py_str env from_id)),
                                (''to'', PStr (py_str env to_id)),
                                (''text'', PStr (py_str env body))]))"
    by (simp add: format_message_for_display_def)
  moreover have "field r ''timestamp'' = Some (PStr (now_iso env))"
    by (simp add: r field_mk_dict)
  ultimately show ?thesis using f1 t1 d x1 by (auto simp: py_str_PStr)
qed

lemma fixture_loads_text:
  "json_loads fixture_env (the (json_text (fixture_text_record ''!01''))) =
     Inr (fixture_text_record ''!01'')"
  by (simp add: fixture_env_def fixture_loads_def fixture_records_def fixture_text_record_def
      fixture_metrics_def mk_dict_def dec_nat.simps)

lemma fixture_dumps_text:
  "json_dumps fixture_env (fixture_text_record ''!01'') =
     Inr (the (json_text (fixture_text_record ''!01'')))"
  by (simp add: fixture_env_def fixture_dumps_def fixture_text_record_def
      fixture_metrics_def mk_dict_def dec_nat.simps)

theorem display_roundtrip_coerced_witness:
  "snd (process_textmessage fixture_env (text_packet (PStr ''!01''))) =
     Inr (fixture_text_record ''!01'')
   \<and> json_dumps fixture_env (fixture_text_record ''!01'') =
       Inr (the (json_text (fixture_text_record ''!01'')))
   \<and> json_loads fixture_env (the (json_text (fixture_text_record ''!01''))) =
       Inr (fixture_text_record ''!01'')
   \<and> format_message_for_display fixture_env (the (json_text (fixture_text_record ''!01''))) =
       ([], Inr (mk_dict [(''timestamp'', PStr ''2025-01-01T12:00:00''), (''from'', PStr ''!01''),
                          (''to'', PStr ''^all''), (''text'', PStr ''hi'')]))"
proof -
  from display_roundtrip_coerced [OF fixture_text_normalized fixture_dumps_text fixture_loads_text]
  have "format_message_for_display fixture_env (the (json_text (fixture_text_record ''!01''))) =
       ([], Inr (mk_dict [(''timestamp'', PStr ''2025-01-01T12:00:00''), (''from'', PStr ''!01''),
                          (''to'', PStr ''^all''), (''text'', PStr ''hi'')]))"
    by (auto simp: text_packet_def getitem_mk_dict py_str_PStr fixture_env_def)
  with fixture_text_normalized fixture_dumps_text fixture_loads_text show ?thesis by blast
qed

text \<open>
  Claim C7, as stated, fails on a packet whose \<^verbatim>\<open>fromId\<close> is not a string: with
  \<^verbatim>\<open>fromId = None\<close> (a sender missing from the node table) normalization succeeds and the
  projection carries the string \<^verbatim>\<open>'None'\<close>, which differs from the packet's \<^verbatim>\<open>fromId\<close>.
\<close>

theorem display_roundtrip_counterexample:
  "getitem (text_packet PNone) ''fromId'' = Inr PNone
   \<and> snd (process_textmessage fixture_env (text_packet PNone)) =
       Inr (fixture_text_record ''None'')
   \<and> json_dumps fixture_env (fixture_text_record ''None'') =
       Inr (the (json_text (fixture_text_record ''None'')))
   \<and> format_message_for_display fixture_env (the (json_text (fixture_text_record ''None''))) =
       ([], Inr (mk_dict [(''timestamp'', PStr ''2025-01-01T12:00:00''), (''from'', PStr ''None''),
                          (''to'', PStr ''^all''), (''text'', PStr ''hi'')]))
   \<and> PStr ''None'' \<noteq> PNone"
proof -
  have "getitem (text_packet PNone) ''fromId'' = Inr PNone"
    by (simp add: text_packet_def getitem_mk_dict)
  moreover have "snd (process_textmessage fixture_env (text_packet PNone)) =
       Inr (fixture_text_record ''None'')"
    by (simp add: fixture_eval)
  moreover have "json_dumps fixture_env (fixture_text_record ''None'') =
       Inr (the (json_text (fixture_text_record ''None'')))"
    by (simp add: fixture_env_def fixture_dumps_def fixture_text_record_def
      fixture_metrics_def mk_dict_def dec_nat.simps)
  moreover have "json_loads fixture_env (the (json_text (fixture_text_record ''None''))) =
     Inr (fixture_text_record ''None'')"
    by (simp add: fixture_env_def fixture_loads_def fixture_records_def fixture_text_record_def
      fixture_metrics_def mk_dict_def dec_nat.simps)
  then have "format_message_for_display fixture_env
        (the (json_text (fixture_text_record ''None''))) =
       ([], Inr (mk_dict [(''timestamp'', PStr ''2025-01-01T12:00:00''), (''from'', PStr ''None''),
                          (''to'', PStr ''^all''), (''text'', PStr ''hi'')]))"
    by (simp add: format_message_for_display_def message_projection_def fixture_text_record_def
        getitem_mk_dict)
  ultimately show ?thesis by simp
qed

section \<open>Numeric coercion\<close>

lemma int_item_coerced: "int_item env p k = Inr v \<Longrightarrow> coerced_int env (getitem p k) (Some v)"
  by (auto simp: int_item_def coerced_int_def andThen_eq_Inr)

lemma float_item_coerced:
  "float_item env p k = Inr v \<Longrightarrow> coerced_float env (getitem p k) (Some v)"
  by (auto simp: float_item_def coerced_float_def andThen_eq_Inr)

lemma int_get_coerced:
  "int_get env p k dflt = Inr v \<Longrightarrow> coerced_int env (get_default p k dflt) (Some v)"
  by (auto simp: int_get_def coerced_int_def andThen_eq_Inr)

lemma float_get_coerced:
  "float_get env p k dflt = Inr v \<Longrightarrow> coerced_float env (get_default p k dflt) (Some v)"
  by (auto simp: float_get_def coerced_float_def andThen_eq_Inr)

lemma inline_metrics_coerced:
  assumes "inline_metrics env p = Inr m" and "field r ''metrics'' = Some m"
  shows "embedded_coerced env p r"
proof -
  from inline_metrics_Inr [OF assms(1)] obtain rx_time rx_snr rx_rssi hop_limit
    where "int_item env p ''rxTime'' = Inr rx_time"
      and "float_get env p ''rxSnr'' (PInt 0) = Inr rx_snr"
      and "int_get env p ''rxRssi'' (PInt 0) = Inr rx_rssi"
      and "int_get env p ''hopLimit'' (PInt 3) = Inr hop_limit"
      and "m = mk_dict [(''rx_time'', rx_time), (''rx_snr'', rx_snr),
                        (''rx_rssi'', rx_rssi), (''hop_limit'', hop_limit)]" by blast
  with assms(2) show ?thesis
    by (simp add: embedded_coerced_def field_mk_dict int_item_coerced float_get_coerced
        int_get_coerced)
qed

lemma textmessage_coerced:
  assumes "build_textmessage env p = Inr r"
  shows "coerced_int env (getitem p ''from'') (field r ''from_num'')
         \<and> coerced_int env (getitem p ''to'') (field r ''to_num'') \<and> embedded_coerced env p r"
proof -
  from build_textmessage_Inr [OF assms]
  obtain from_num from_id to_num to_id decoded body metrics raw
    where a: "int_item env p ''from'' = Inr from_num" "int_item env p ''to'' = Inr to_num"
      "inline_metrics env p = Inr metrics"
      and r: "r = mk_dict [(''type'', PStr ''text''), (''timestamp'', PStr (now_iso env)),
                        (''from_num'', from_num), (''from_id'', from_id),
                        (''to_num'', to_num), (''to_id'', to_id), (''text'', body),
                        (''metrics'', metrics), (''raw'', raw)]" by blast
  from r have "field r ''from_num'' = Some from_num" "field r ''to_num'' = Some to_num"
    "field r ''metrics'' = Some metrics" by (simp_all add: field_mk_dict)
  with a show ?thesis
    by (simp add: int_item_coerced inline_metrics_coerced)
qed

lemma nodeinfo_coerced:
  assumes "build_nodeinfo env p = Inr r"
  shows "coerced_int env (getitem p ''from'') (field r ''from_num'') \<and> embedded_coerced env p r"
proof -
  from build_nodeinfo_Inr [OF assms]
  obtain user_info from_num from_id user metrics raw
    where a: "int_item env p ''from'' = Inr from_num" "inline_metrics env p = Inr metrics"
      and r: "r = mk_dict [(''type'', PStr ''nodeinfo''), (''timestamp'', PStr (now_iso env)),
                        (''from_num'', from_num), (''from_id'', from_id), (''user'', user),
                        (''metrics'', metrics), (''raw'', raw)]" by blast
  from r have "field r ''from_num'' = Some from_num" "field r ''metrics'' = Some metrics"
    by (simp_all add: field_mk_dict)
  with a show ?thesis
    by (simp add: int_item_coerced inline_metrics_coerced)
qed

lemma build_device_metrics_Inr:
  assumes "build_device_metrics env telemetry = Inr out"
  shows "\<exists>dm. getitem telemetry ''deviceMetrics'' = Inr dm \<and>
           coerced_int env (getitem dm ''batteryLevel'') (field out ''battery_level'') \<and>
           coerced_float env (getitem dm ''voltage'') (field out ''voltage'') \<and>
           coerced_float env (get_default dm ''channelUtilization'' (PFloat (Finite 0)))
             (field out ''channel_utilization'') \<and>
           coerced_float env (getitem dm ''airUtilTx'') (field out ''air_util_tx'') \<and>
           coerced_int env (getitem dm ''uptimeSeconds'') (field out ''uptime_seconds'')"
proof -
  from assms obtain dm battery_level voltage channel_utilization air_util_tx uptime_seconds
    where "getitem telemetry ''deviceMetrics'' = Inr dm"
      and "int_item env dm ''batteryLevel'' = Inr battery_level"
      and "float_item env dm ''voltage'' = Inr voltage"
      and "float_get env dm ''channelUtilization'' (PFloat (Finite 0)) = Inr channel_utilization"
      and "float_item env dm ''airUtilTx'' = Inr air_util_tx"
      and "int_item env dm ''uptimeSeconds'' = Inr uptime_seconds"
      and "out = mk_dict [(''battery_level'', battery_level), (''voltage'', voltage),
                     (''channel_utilization'', channel_utilization),
                     (''air_util_tx'', air_util_tx),
                     (''uptime_seconds'', uptime_seconds)]"
    unfolding build_device_metrics_def andThen_eq_Inr by auto
  then show ?thesis
    by (auto simp: field_mk_dict int_item_coerced float_item_coerced float_get_coerced)
qed

lemma build_device_telemetry_Inr:
  assumes "build_device_telemetry env p = Inr r"
  shows "\<exists>decoded telemetry from_num from_id device_metrics metrics raw.
           getitem p ''decoded'' = Inr decoded \<and> getitem decoded ''telemetry'' = Inr telemetry \<and>
           int_item env p ''from'' = Inr from_num \<and> str_item env p ''fromId'' = Inr from_id \<and>
           build_device_metrics env telemetry = Inr device_metrics \<and>
           extract_metrics p = Inr metrics \<and> str_item env p ''raw'' = Inr raw \<and>
           r = mk_dict [(''type'', PStr ''device_telemetry''), (''timestamp'', PStr (now_iso env)),
                     (''from_num'', from_num), (''from_id'', from_id),
                     (''device_metrics'', device_metrics), (''metrics'', metrics),
                     (''raw'', raw)]"
  using assms unfolding build_device_telemetry_def andThen_eq_Inr by blast

lemma device_telemetry_coerced:
  assumes "build_device_telemetry env p = Inr r"
  shows "coerced_int env (getitem p ''from'') (field r ''from_num'') \<and> device_coerced env p r"
proof -
  from build_device_telemetry_Inr [OF assms]
  obtain decoded telemetry from_num from_id device_metrics metrics raw
    where a: "getitem p ''decoded'' = Inr decoded" "getitem decoded ''telemetry'' = Inr telemetry"
      "int_item env p ''from'' = Inr from_num"
      "build_device_metrics env telemetry = Inr device_metrics"
      and r: "r = mk_dict [(''type'', PStr ''device_telemetry''),
                     (''timestamp'', PStr (now_iso env)),
                     (''from_num'', from_num), (''from_id'', from_id),
                     (''device_metrics'', device_metrics), (''metrics'', metrics),
                     (''raw'', raw)]" by blast
  from r have f: "field r ''from_num'' = Some from_num"
    "field r ''device_metrics'' = Some device_metrics" by (simp_all add: field_mk_dict)
  from build_device_metrics_Inr [OF a(4)] a(1,2) f(2) have "device_coerced env p r"
    unfolding device_coerced_def by blast
  with a(3) f(1) show ?thesis by (simp add: int_item_coerced)
qed

lemma process_device_telemetry_Inr:
  "snd (process_device_telemetry env p) = Inr r \<Longrightarrow> build_device_telemetry env p = Inr r"
  by (auto simp: process_device_telemetry_def Let_def split: sum.splits option.splits)

lemma item_needs_field:
  "int_item env p k = Inr v \<Longrightarrow> field p k \<noteq> None"
  "str_item env p k = Inr v \<Longrightarrow> field p k \<noteq> None"
  "float_item env p k = Inr v \<Longrightarrow> field p k \<noteq> None"
  by (auto simp: int_item_def str_item_def float_item_def andThen_eq_Inr dest: getitem_field)

lemma build_user_needs_fields:
  assumes "build_user env u = Inr out"
    and "k \<in> {''id'', ''longName'', ''shortName'', ''macaddr'', ''hwModel'', ''raw''}"
  shows "field u k \<noteq> None"
proof -
  from assms(1) obtain a b c d e f
    where "str_item env u ''id'' = Inr a" "str_item env u ''longName'' = Inr b"
      "str_item env u ''shortName'' = Inr c" "str_item env u ''macaddr'' = Inr d"
      "str_item env u ''hwModel'' = Inr e" "str_item env u ''raw'' = Inr f"
    unfolding build_user_def andThen_eq_Inr by blast
  then have "field u ''id'' \<noteq> None" "field u ''longName'' \<noteq> None"
    "field u ''shortName'' \<noteq> None" "field u ''macaddr'' \<noteq> None"
    "field u ''hwModel'' \<noteq> None" "field u ''raw'' \<noteq> None"
    by (simp_all add: item_needs_field)
  with assms(2) show ?thesis by auto
qed

lemma build_device_metrics_needs_fields:
  assumes "build_device_metrics env telemetry = Inr out"
    and "getitem telemetry ''deviceMetrics'' = Inr dm"
    and "k \<in> {''batteryLevel'', ''voltage'', ''airUtilTx'', ''uptimeSeconds''}"
  shows "field dm k \<noteq> None"
proof -
  from assms(1,2) obtain a b c d
    where "int_item env dm ''batteryLevel'' = Inr a" "float_item env dm ''voltage'' = Inr b"
      "float_item env dm ''airUtilTx'' = Inr c" "int_item env dm ''uptimeSeconds'' = Inr d"
    unfolding build_device_metrics_def andThen_eq_Inr by auto
  then have "field dm ''batteryLevel'' \<noteq> None" "field dm ''voltage'' \<noteq> None"
    "field dm ''airUtilTx'' \<noteq> None" "field dm ''uptimeSeconds'' \<noteq> None"
    by (simp_all add: item_needs_field)
  with assms(3) show ?thesis by auto
qed

lemma textmessage_required:
  assumes "(k \<in> {''from'', ''fromId'', ''to'', ''toId'', ''decoded'', ''rxTime'', ''raw''} \<and>
            field p k = None)
           \<or> (\<exists>decoded. getitem p ''decoded'' = Inr decoded \<and> field decoded ''text'' = None)"
  shows "\<exists>e. snd (process_textmessage env p) = Inl e"
proof (cases "snd (process_textmessage env p)")
  case (Inl e)
  then show ?thesis by blast
next
  case (Inr r)
  then have "build_textmessage env p = Inr r" by (simp add: process_textmessage_Inr)
  from build_textmessage_Inr [OF this]
  obtain from_num from_id to_num to_id decoded body metrics raw
    where a: "int_item env p ''from'' = Inr from_num" "str_item env p ''fromId'' = Inr from_id"
      "int_item env p ''to'' = Inr to_num" "str_item env p ''toId'' = Inr to_id"
      "getitem p ''decoded'' = Inr decoded" "inline_metrics env p = Inr metrics"
      "str_item env p ''raw'' = Inr raw" "str_item env decoded ''text'' = Inr body" by blast
  from inline_metrics_Inr [OF a(6)] obtain rx_time
    where c: "int_item env p ''rxTime'' = Inr rx_time" by blast
  have "field p ''from'' \<noteq> None" "field p ''fromId'' \<noteq> None" "field p ''to'' \<noteq> None"
    "field p ''toId'' \<noteq> None" "field p ''decoded'' \<noteq> None" "field p ''rxTime'' \<noteq> None"
    "field p ''raw'' \<noteq> None" "field decoded ''text'' \<noteq> None"
    using a c by (simp_all add: item_needs_field getitem_field)
  with assms a(5) show ?thesis by auto
qed

lemma nodeinfo_required:
  assumes "(k \<in> {''decoded'', ''from'', ''fromId'', ''rxTime'', ''raw''} \<and> field p k = None)
           \<or> (\<exists>decoded. getitem p ''decoded'' = Inr decoded \<and> field decoded ''user'' = None)
           \<or> (\<exists>u. user_dict env p = Inr u \<and>
                 k \<in> {''id'', ''longName'', ''shortName'', ''macaddr'', ''hwModel'', ''raw''} \<and>
                 field u k = None)"
  shows "\<exists>e. snd (process_nodeinfo env p) = Inl e"
proof (cases "snd (process_nodeinfo env p)")
  case (Inl e)
  then show ?thesis by blast
next
  case (Inr r)
  then have "build_nodeinfo env p = Inr r" by (simp add: process_nodeinfo_Inr)
  from build_nodeinfo_Inr [OF this]
  obtain user_info from_num from_id user metrics raw
    where a: "user_dict env p = Inr user_info" "int_item env p ''from'' = Inr from_num"
      "str_item env p ''fromId'' = Inr from_id" "inline_metrics env p = Inr metrics"
      "str_item env p ''raw'' = Inr raw" "build_user env user_info = Inr user" by blast
  from inline_metrics_Inr [OF a(4)] obtain rx_time
    where c: "int_item env p ''rxTime'' = Inr rx_time" by blast
  from a(1) obtain decoded raw_user where d: "getitem p ''decoded'' = Inr decoded"
    "getitem decoded ''user'' = Inr raw_user"
    by (auto simp: user_dict_def andThen_eq_Inr)
  have f: "field p ''from'' \<noteq> None" "field p ''fromId'' \<noteq> None"
    "field p ''decoded'' \<noteq> None" "field p ''rxTime'' \<noteq> None" "field p ''raw'' \<noteq> None"
    "field decoded ''user'' \<noteq> None"
    using a c d by (simp_all add: item_needs_field getitem_field)
  from assms show ?thesis
  proof (elim disjE exE conjE)
    assume "k \<in> {''decoded'', ''from'', ''fromId'', ''rxTime'', ''raw''}" "field p k = None"
    with f show ?thesis by auto
  next
    fix decoded' assume "getitem p ''decoded'' = Inr decoded'" "field decoded' ''user'' = None"
    with d f show ?thesis by simp
  next
    fix u assume "user_dict env p = Inr u"
      "k \<in> {''id'', ''longName'', ''shortName'', ''macaddr'', ''hwModel'', ''raw''}"
      "field u k = None"
    with a(1) build_user_needs_fields [OF a(6), of k] show ?thesis by simp
  qed
qed

lemma device_telemetry_required:
  assumes "(k \<in> {''decoded'', ''from'', ''fromId'', ''rxTime'', ''raw''} \<and> field p k = None)
           \<or> (\<exists>decoded. getitem p ''decoded'' = Inr decoded \<and> field decoded ''telemetry'' = None)
           \<or> (\<exists>decoded telemetry. getitem p ''decoded'' = Inr decoded \<and>
                 getitem decoded ''telemetry'' = Inr telemetry \<and>
                 field telemetry ''deviceMetrics'' = None)
           \<or> (\<exists>decoded telemetry dm. getitem p ''decoded'' = Inr decoded \<and>
                 getitem decoded ''telemetry'' = Inr telemetry \<and>
                 getitem telemetry ''deviceMetrics'' = Inr dm \<and>
                 k \<in> {''batteryLevel'', ''voltage'', ''airUtilTx'', ''uptimeSeconds''} \<and>
                 field dm k = None)"
  shows "\<exists>e. snd (process_device_telemetry env p) = Inl e"
proof (cases "snd (process_device_telemetry env p)")
  case (Inl e)
  then show ?thesis by blast
next
  case (Inr r)
  then have "build_device_telemetry env p = Inr r" by (simp add: process_device_telemetry_Inr)
  from build_device_telemetry_Inr [OF this]
  obtain decoded telemetry from_num from_id device_metrics metrics raw
    where a: "getitem p ''decoded'' = Inr decoded" "int_item env p ''from'' = Inr from_num"
      "str_item env p ''fromId'' = Inr from_id" "extract_metrics p = Inr metrics"
      "str_item env p ''raw'' = Inr raw" "getitem decoded ''telemetry'' = Inr telemetry"
      "build_device_metrics env telemetry = Inr device_metrics" by blast
  from a(4) obtain rx_time where c: "getitem p ''rxTime'' = Inr rx_time"
    unfolding extract_metrics_def andThen_eq_Inr by blast
  from a(7) obtain dm where dm: "getitem telemetry ''deviceMetrics'' = Inr dm"
    unfolding build_device_metrics_def andThen_eq_Inr by blast
  have f: "field p ''from'' \<noteq> None" "field p ''fromId'' \<noteq> None"
    "field p ''decoded'' \<noteq> None" "field p ''rxTime'' \<noteq> None" "field p ''raw'' \<noteq> None"
    "field decoded ''telemetry'' \<noteq> None" "field telemetry ''deviceMetrics'' \<noteq> None"
    using a c dm by (simp_all add: item_needs_field getitem_field)
  from assms show ?thesis
  proof (elim disjE exE conjE)
    assume "k \<in> {''decoded'', ''from'', ''fromId'', ''rxTime'', ''raw''}" "field p k = None"
    with f show ?thesis by auto
  next
    fix decoded' assume "getitem p ''decoded'' = Inr decoded'"
      "field decoded' ''telemetry'' = None"
    with a f show ?thesis by simp
  next
    fix decoded' telemetry' assume "getitem p ''decoded'' = Inr decoded'"
      "getitem decoded' ''telemetry'' = Inr telemetry'" "field telemetry' ''deviceMetrics'' = None"
    with a f show ?thesis by simp
  next
    fix decoded' telemetry' dm' assume "getitem p ''decoded'' = Inr decoded'"
      "getitem decoded' ''telemetry'' = Inr telemetry'"
      "getitem telemetry' ''deviceMetrics'' = Inr dm'"
      "k \<in> {''batteryLevel'', ''voltage'', ''airUtilTx'', ''uptimeSeconds''}"
      "field dm' k = None"
    with a dm build_device_metrics_needs_fields [OF a(7) dm, of k] show ?thesis by simp
  qed
qed

lemma extract_metrics_as_found:
  assumes "extract_metrics p = Inr m"
  shows "metrics_as_found p m"
proof -
  from assms obtain t a b c where "getitem p ''rxTime'' = Inr t"
    and "get_default p ''rxSnr'' PNone = Inr a" and "get_default p ''rxRssi'' PNone = Inr b"
    and "get_default p ''hopLimit'' (PInt 3) = Inr c"
    and "m = mk_dict [(''rx_time'', t), (''rx_snr'', a), (''rx_rssi'', b), (''hop_limit'', c)]"
    unfolding extract_metrics_def andThen_eq_Inr by blast
  then show ?thesis
    unfolding metrics_as_found_def by (auto dest!: get_default_field)
qed

lemma extract_metrics_returns:
  assumes "field p ''rxTime'' = Some t"
  shows "\<exists>m. extract_metrics p = Inr m"
  using assms
  by (cases p) (simp_all add: field_def extract_metrics_def getitem_PDict get_default_PDict)

lemma device_telemetry_metrics_as_found:
  assumes "build_device_telemetry env p = Inr r"
  shows "\<exists>m. field r ''metrics'' = Some m \<and> metrics_as_found p m"
proof -
  from build_device_telemetry_Inr [OF assms]
  obtain decoded telemetry from_num from_id device_metrics metrics raw
    where "extract_metrics p = Inr metrics"
      and "r = mk_dict [(''type'', PStr ''device_telemetry''),
                     (''timestamp'', PStr (now_iso env)),
                     (''from_num'', from_num), (''from_id'', from_id),
                     (''device_metrics'', device_metrics), (''metrics'', metrics),
                     (''raw'', raw)]" by blast
  then show ?thesis by (simp add: field_mk_dict extract_metrics_as_found)
qed

text \<open>
  Claim C8, as amended. \<^verbatim>\<open>int\<close> and \<^verbatim>\<open>float\<close> parse a string argument and raise
  \<^verbatim>\<open>ValueError\<close> when it is no number. In every record that \<^verbatim>\<open>_process_textmessage\<close>,
  \<^verbatim>\<open>_process_nodeinfo\<close> or \<^verbatim>\<open>_process_device_telemetry\<close> returns, \<^verbatim>\<open>from_num\<close>, \<^verbatim>\<open>to_num\<close>,
  the embedded \<^verbatim>\<open>rx_time\<close>, \<^verbatim>\<open>rx_snr\<close>, \<^verbatim>\<open>rx_rssi\<close>, \<^verbatim>\<open>hop_limit\<close> of text and node records and
  the five device metrics are the results of \<^verbatim>\<open>int\<close> or \<^verbatim>\<open>float\<close> on the packet's values. Each
  normalizer raises when the packet lacks one of its required fields, at the top level or
  under \<^verbatim>\<open>decoded\<close>. \<^verbatim>\<open>_extract_metrics\<close> converts nothing: whenever it returns, its four
  fields are the packet's \<^verbatim>\<open>rxTime\<close>, \<^verbatim>\<open>rxSnr\<close> (or \<^verbatim>\<open>None\<close>), \<^verbatim>\<open>rxRssi\<close> (or \<^verbatim>\<open>None\<close>) and
  \<^verbatim>\<open>hopLimit\<close> (or 3) as found, it returns whenever \<^verbatim>\<open>rxTime\<close> is present, and the \<^verbatim>\<open>metrics\<close>
  of every telemetry record are these unconverted values.
\<close>

theorem numeric_coercion_in_normalizers:
  "(\<forall>s. py_int env (PStr s) =
          (case int_of_str env s of None \<Rightarrow> Inl ValueError | Some n \<Rightarrow> Inr n))
   \<and> (\<forall>s. py_float env (PStr s) =
          (case float_of_str env s of None \<Rightarrow> Inl ValueError | Some f \<Rightarrow> Inr f))
   \<and> (\<forall>r. snd (process_textmessage env p) = Inr r \<longrightarrow>
          coerced_int env (getitem p ''from'') (field r ''from_num'') \<and>
          coerced_int env (getitem p ''to'') (field r ''to_num'') \<and> embedded_coerced env p r)
   \<and> (\<forall>r. snd (process_nodeinfo env p) = Inr r \<longrightarrow>
          coerced_int env (getitem p ''from'') (field r ''from_num'') \<and> embedded_coerced env p r)
   \<and> (\<forall>r. snd (process_device_telemetry env p) = Inr r \<longrightarrow>
          coerced_int env (getitem p ''from'') (field r ''from_num'') \<and> device_coerced env p r \<and>
          (\<exists>m. field r ''metrics'' = Some m \<and> metrics_as_found p m))
   \<and> (\<forall>k. (k \<in> {''from'', ''fromId'', ''to'', ''toId'', ''decoded'', ''rxTime'', ''raw''} \<and>
           field p k = None)
          \<or> (\<exists>decoded. getitem p ''decoded'' = Inr decoded \<and> field decoded ''text'' = None) \<longrightarrow>
          (\<exists>e. snd (process_textmessage env p) = Inl e))
   \<and> (\<forall>k. (k \<in> {''decoded'', ''from'', ''fromId'', ''rxTime'', ''raw''} \<and> field p k = None)
          \<or> (\<exists>decoded. getitem p ''decoded'' = Inr decoded \<and> field decoded ''user'' = None)
          \<or> (\<exists>u. user_dict env p = Inr u \<and>
                k \<in> {''id'', ''longName'', ''shortName'', ''macaddr'', ''hwModel'', ''raw''} \<and>
                field u k = None) \<longrightarrow>
          (\<exists>e. snd (process_nodeinfo env p) = Inl e))
   \<and> (\<forall>k. (k \<in> {''decoded'', ''from'', ''fromId'', ''rxTime'', ''raw''} \<and> field p k = None)
          \<or> (\<exists>decoded. getitem p ''decoded'' = Inr decoded \<and>
                field decoded ''telemetry'' = None)
          \<or> (\<exists>decoded telemetry. getitem p ''decoded'' = Inr decoded \<and>
                getitem decoded ''telemetry'' = Inr telemetry \<and>
                field telemetry ''deviceMetrics'' = None)
          \<or> (\<exists>decoded telemetry dm. getitem p ''decoded'' = Inr decoded \<and>
                getitem decoded ''telemetry'' = Inr telemetry \<and>
                getitem telemetry ''deviceMetrics'' = Inr dm \<and>
                k \<in> {''batteryLevel'', ''voltage'', ''airUtilTx'', ''uptimeSeconds''} \<and>
                field dm k = None) \<longrightarrow>
          (\<exists>e. snd (process_device_telemetry env p) = Inl e))
   \<and> (\<forall>m. extract_metrics p = Inr m \<longrightarrow> metrics_as_found p m)
   \<and> (\<forall>t. field p ''rxTime'' = Some t \<longrightarrow> (\<exists>m. extract_metrics p = Inr m))"
proof (intro conjI allI impI)
  fix s
  show "py_int env (PStr s) =
          (case int_of_str env s of None \<Rightarrow> Inl ValueError | Some n \<Rightarrow> Inr n)"
    by (simp add: py_int_def)
  show "py_float env (PStr s) =
          (case float_of_str env s of None \<Rightarrow> Inl ValueError | Some f \<Rightarrow> Inr f)"
    by (simp add: py_float_def)
next
  fix r assume "snd (process_textmessage env p) = Inr r"
  then have "build_textmessage env p = Inr r" by (simp add: process_textmessage_Inr)
  from textmessage_coerced [OF this]
  show "coerced_int env (getitem p ''from'') (field r ''from_num'')"
    and "coerced_int env (getitem p ''to'') (field r ''to_num'')"
    and "embedded_coerced env p r" by simp_all
next
  fix r assume "snd (process_nodeinfo env p) = Inr r"
  then have "build_nodeinfo env p = Inr r" by (simp add: process_nodeinfo_Inr)
  from nodeinfo_coerced [OF this]
  show "coerced_int env (getitem p ''from'') (field r ''from_num'')"
    and "embedded_coerced env p r" by simp_all
next
  fix r assume "snd (process_device_telemetry env p) = Inr r"
  then have b: "build_device_telemetry env p = Inr r"
    by (simp add: process_device_telemetry_Inr)
  from device_telemetry_coerced [OF b]
  show "coerced_int env (getitem p ''from'') (field r ''from_num'')"
    and "device_coerced env p r" by simp_all
  from b show "\<exists>m. field r ''metrics'' = Some m \<and> metrics_as_found p m"
    by (rule device_telemetry_metrics_as_found)
next
  fix k
  assume "(k \<in> {''from'', ''fromId'', ''to'', ''toId'', ''decoded'', ''rxTime'', ''raw''} \<and>
           field p k = None)
          \<or> (\<exists>decoded. getitem p ''decoded'' = Inr decoded \<and> field decoded ''text'' = None)"
  then show "\<exists>e. snd (process_textmessage env p) = Inl e"
    by (rule textmessage_required)
next
  fix k
  assume "(k \<in> {''decoded'', ''from'', ''fromId'', ''rxTime'', ''raw''} \<and> field p k = None)
          \<or> (\<exists>decoded. getitem p ''decoded'' = Inr decoded \<and> field decoded ''user'' = None)
          \<or> (\<exists>u. user_dict env p = Inr u \<and>
                k \<in> {''id'', ''longName'', ''shortName'', ''macaddr'', ''hwModel'', ''raw''} \<and>
                field u k = None)"
  then show "\<exists>e. snd (process_nodeinfo env p) = Inl e"
    by (rule nodeinfo_required)
next
  fix k
  assume "(k \<in> {''decoded'', ''from'', ''fromId'', ''rxTime'', ''raw''} \<and> field p k = None)
          \<or> (\<exists>decoded. getitem p ''decoded'' = Inr decoded \<and>
                field decoded ''telemetry'' = None)
          \<or> (\<exists>decoded telemetry. getitem p ''decoded'' = Inr decoded \<and>
                getitem decoded ''telemetry'' = Inr telemetry \<and>
                field telemetry ''deviceMetrics'' = None)
          \<or> (\<exists>decoded telemetry dm. getitem p ''decoded'' = Inr decoded \<and>
                getitem decoded ''telemetry'' = Inr telemetry \<and>
                getitem telemetry ''deviceMetrics'' = Inr dm \<and>
                k \<in> {''batteryLevel'', ''voltage'', ''airUtilTx'', ''uptimeSeconds''} \<and>
                field dm k = None)"
  then show "\<exists>e. snd (process_device_telemetry env p) = Inl e"
    by (rule device_telemetry_required)
next
  fix m assume "extract_metrics p = Inr m"
  then show "metrics_as_found p m" by (rule extract_metrics_as_found)
next
  fix t assume "field p ''rxTime'' = Some t"
  then show "\<exists>m. extract_metrics p = Inr m" by (rule extract_metrics_returns)
qed

lemma string_numbers_normalized:
  "snd (process_textmessage fixture_env string_number_packet) = Inr (fixture_text_record ''!01'')"
  by (simp add: fixture_eval string_number_packet_def fixture_int_of_str_def)

lemma telemetry_normalized:
  "snd (process_device_telemetry fixture_env telemetry_packet) =
     Inr (mk_dict [(''type'', PStr ''device_telemetry''),
                   (''timestamp'', PStr ''2025-01-01T12:00:00''),
                   (''from_num'', PInt 1), (''from_id'', PStr ''!01''),
                   (''device_metrics'',
                      mk_dict [(''battery_level'', PInt 90), (''voltage'', PFloat (Finite 4)),
                               (''channel_utilization'', PFloat (Finite 0)),
                               (''air_util_tx'', PFloat (Finite 1)),
                               (''uptime_seconds'', PInt 60)]),
                   (''metrics'',
                      mk_dict [(''rx_time'', PInt 100), (''rx_snr'', PFloat (Finite 7)),
                               (''rx_rssi'', PNone), (''hop_limit'', PInt 3)]),
                   (''raw'', PStr ''raw'')])"
  by (simp add: process_device_telemetry_def build_device_telemetry_def build_device_metrics_def
      extract_metrics_def float_item_def telemetry_packet_def has_float_def
      valid_device_metrics_def fixture_eval)

theorem numeric_coercion_in_normalizers_witness:
  "snd (process_textmessage fixture_env string_number_packet) = Inr (fixture_text_record ''!01'')
   \<and> getitem string_number_packet ''from'' = Inr (PStr ''1'')
   \<and> coerced_int fixture_env (getitem string_number_packet ''from'')
        (field (fixture_text_record ''!01'') ''from_num'')
   \<and> field (fixture_text_record ''!01'') ''from_num'' = Some (PInt 1)
   \<and> embedded_coerced fixture_env string_number_packet (fixture_text_record ''!01'')
   \<and> field (PDict []) ''rxTime'' = None
   \<and> (\<exists>e. snd (process_textmessage fixture_env (PDict [])) = Inl e)
   \<and> (\<exists>e. snd (process_nodeinfo fixture_env (PDict [])) = Inl e)
   \<and> (\<exists>e. snd (process_device_telemetry fixture_env (PDict [])) = Inl e)
   \<and> getitem (mk_dict [(''decoded'', PDict [])]) ''decoded'' = Inr (PDict [])
   \<and> (\<exists>e. snd (process_textmessage fixture_env (mk_dict [(''decoded'', PDict [])])) = Inl e)
   \<and> metrics_as_found (PDict [(PStr ''rxTime'', PStr ''100'')])
        (mk_dict [(''rx_time'', PStr ''100''), (''rx_snr'', PNone), (''rx_rssi'', PNone),
                  (''hop_limit'', PInt 3)])
   \<and> (\<exists>r m. snd (process_device_telemetry fixture_env telemetry_packet) = Inr r \<and>
          field r ''metrics'' = Some m \<and> metrics_as_found telemetry_packet m \<and>
          m = mk_dict [(''rx_time'', PInt 100), (''rx_snr'', PFloat (Finite 7)),
                       (''rx_rssi'', PNone), (''hop_limit'', PInt 3)])"
proof -
  note t = numeric_coercion_in_normalizers [of fixture_env string_number_packet]
  note e = numeric_coercion_in_normalizers [of fixture_env "PDict []"]
  note n = numeric_coercion_in_normalizers [of fixture_env "mk_dict [(''decoded'', PDict [])]"]
  note x = numeric_coercion_in_normalizers
    [of fixture_env "PDict [(PStr ''rxTime'', PStr ''100'')]"]
  note y = numeric_coercion_in_normalizers [of fixture_env telemetry_packet]
  have f: "field (PDict []) ''rxTime'' = None" by (simp add: field_def)
  from t [THEN conjunct2, THEN conjunct2, THEN conjunct1, rule_format,
      OF string_numbers_normalized]
  have a: "coerced_int fixture_env (getitem string_number_packet ''from'')
        (field (fixture_text_record ''!01'') ''from_num'')"
    and b: "embedded_coerced fixture_env string_number_packet (fixture_text_record ''!01'')"
    by simp_all
  from e [THEN conjunct2, THEN conjunct2, THEN conjunct2, THEN conjunct2, THEN conjunct2,
      THEN conjunct1, rule_format, of "''rxTime''"] f
  have c: "\<exists>e. snd (process_textmessage fixture_env (PDict [])) = Inl e" by simp
  from e [THEN conjunct2, THEN conjunct2, THEN conjunct2, THEN conjunct2, THEN conjunct2,
      THEN conjunct2, THEN conjunct1, rule_format, of "''rxTime''"] f
  have d: "\<exists>e. snd (process_nodeinfo fixture_env (PDict [])) = Inl e" by simp
  from e [THEN conjunct2, THEN conjunct2, THEN conjunct2, THEN conjunct2, THEN conjunct2,
      THEN conjunct2, THEN conjunct2, THEN conjunct1, rule_format, of "''rxTime''"] f
  have d': "\<exists>e. snd (process_device_telemetry fixture_env (PDict [])) = Inl e" by simp
  have nd: "getitem (mk_dict [(''decoded'', PDict [])]) ''decoded'' = Inr (PDict [])"
    by (simp add: getitem_mk_dict)
  then have "\<exists>decoded. getitem (mk_dict [(''decoded'', PDict [])]) ''decoded'' = Inr decoded \<and>
      field decoded ''text'' = None"
    by (simp add: field_def)
  with n [THEN conjunct2, THEN conjunct2, THEN conjunct2, THEN conjunct2, THEN conjunct2,
      THEN conjunct1, rule_format, of "''from''"]
  have n': "\<exists>e. snd (process_textmessage fixture_env (mk_dict [(''decoded'', PDict [])])) = Inl e"
    by blast
  have xr: "extract_metrics (PDict [(PStr ''rxTime'', PStr ''100'')]) =
      Inr (mk_dict [(''rx_time'', PStr ''100''), (''rx_snr'', PNone), (''rx_rssi'', PNone),
                  (''hop_limit'', PInt 3)])"
    by (simp add: extract_metrics_def getitem_PDict get_default_PDict)
  from x [THEN conjunct2, THEN conjunct2, THEN conjunct2, THEN conjunct2, THEN conjunct2,
      THEN conjunct2, THEN conjunct2, THEN conjunct2, THEN conjunct1, rule_format, OF xr]
  have g: "metrics_as_found (PDict [(PStr ''rxTime'', PStr ''100'')])
        (mk_dict [(''rx_time'', PStr ''100''), (''rx_snr'', PNone), (''rx_rssi'', PNone),
                  (''hop_limit'', PInt 3)])" .
  from y [THEN conjunct2, THEN conjunct2, THEN conjunct2, THEN conjunct2, THEN conjunct1,
      rule_format, OF telemetry_normalized]
  have "\<exists>m. field (mk_dict [(''type'', PStr ''device_telemetry''),
                   (''timestamp'', PStr ''2025-01-01T12:00:00''),
                   (''from_num'', PInt 1), (''from_id'', PStr ''!01''),
                   (''device_metrics'',
                      mk_dict [(''battery_level'', PInt 90), (''voltage'', PFloat (Finite 4)),
                               (''channel_utilization'', PFloat (Finite 0)),
                               (''air_util_tx'', PFloat (Finite 1)),
                               (''uptime_seconds'', PInt 60)]),
                   (''metrics'',
                      mk_dict [(''rx_time'', PInt 100), (''rx_snr'', PFloat (Finite 7)),
                               (''rx_rssi'', PNone), (''hop_limit'', PInt 3)]),
                   (''raw'', PStr ''raw'')]) ''metrics'' = Some m \<and>
        metrics_as_found telemetry_packet m"
    by simp
  then have "metrics_as_found telemetry_packet
      (mk_dict [(''rx_time'', PInt 100), (''rx_snr'', PFloat (Finite 7)),
                (''rx_rssi'', PNone), (''hop_limit'', PInt 3)])"
    by (simp add: field_mk_dict)
  with telemetry_normalized
  have z: "\<exists>r m. snd (process_device_telemetry fixture_env telemetry_packet) = Inr r \<and>
          field r ''metrics'' = Some m \<and> metrics_as_found telemetry_packet m \<and>
          m = mk_dict [(''rx_time'', PInt 100), (''rx_snr'', PFloat (Finite 7)),
                       (''rx_rssi'', PNone), (''hop_limit'', PInt 3)]"
    by (simp add: field_mk_dict)
  have h: "getitem string_number_packet ''from'' = Inr (PStr ''1'')"
    by (simp add: string_number_packet_def getitem_mk_dict)
  have i: "field (fixture_text_record ''!01'') ''from_num'' = Some (PInt 1)"
    by (simp add: fixture_text_record_def field_mk_dict)
  from string_numbers_normalized h a i b f c d d' nd n' g z show ?thesis by (intro conjI)
qed

text \<open>
  Claim C8, as stated, fails for \<^verbatim>\<open>_extract_metrics\<close>: the strings \<^verbatim>\<open>'100'\<close> and \<^verbatim>\<open>'3'\<close>, which
  \<^verbatim>\<open>int\<close> would convert, are placed in \<^verbatim>\<open>rx_time\<close> and \<^verbatim>\<open>hop_limit\<close> unconverted.
\<close>

theorem extract_metrics_keeps_strings:
  "extract_metrics (mk_dict [(''rxTime'', PStr ''100''), (''hopLimit'', PStr ''3'')]) =
     Inr (mk_dict [(''rx_time'', PStr ''100''), (''rx_snr'', PNone), (''rx_rssi'', PNone),
                   (''hop_limit'', PStr ''3'')])
   \<and> int_of_str fixture_env ''100'' = Some 100
   \<and> int_of_str fixture_env ''3'' = Some 3"
  by (simp add: extract_metrics_def mk_dict_def getitem_PDict get_default_PDict
      fixture_env_def fixture_int_of_str_def)

end
